theory Spec2Isabelle
  imports Main
begin

section \<open>The rate limiter of src/middleware/rateLimiter.js\<close>

text \<open>
  The module keeps two pieces of process-wide state: the \<open>Map\<close> \<open>ipTimestamps\<close> from
  a client address to the arrival instants of its recent requests, and the object
  \<open>banned\<close>, used as a dictionary from a client address to its ban record and mirrored
  in the file \<open>data/banned-ips.json\<close>. Instants are milliseconds since the epoch
  (\<open>Date.now()\<close>), modelled as \<open>int\<close>; the ISO rendering of an instant
  (\<open>toISOString\<close>) is kept as the instant itself. Every reading of the clock is an
  argument of the function that reads it. The field \<open>banned\<close> of the state holds the
  own properties of the object \<open>banned\<close>; a read \<open>banned[ip]\<close> also finds the members
  that every plain object inherits from \<open>Object.prototype\<close> (see \<open>banned_get\<close>). The
  assignment \<open>banned[ip] = ...\<close> of \<open>banIp\<close> is modelled as the assignment of an own
  property for every name; under the name \<open>__proto__\<close> JavaScript sets the prototype
  instead, which takes a direct call of \<open>banIp\<close>: the middleware answers a request
  under that name before it reaches \<open>banIp\<close>. The field \<open>by\<close> of a ban record is called \<open>bannedBy\<close> here.
  Numbers are integers, and the properties of a request that the module reads are
  strings or absent.
\<close>

subsection \<open>Module constants\<close>

definition WINDOW_MS :: int where
  "WINDOW_MS = 10 * 1000"

definition MAX_REQUESTS :: int where
  "MAX_REQUESTS = 25"

definition CLEANUP_INTERVAL_MS :: int where
  "CLEANUP_INTERVAL_MS = 60 * 1000"

subsection \<open>Data\<close>

record ban_record =
  bannedAt :: int
  reason :: string
  bannedBy :: string

text \<open>The lines appended to \<open>logs/request-logs.log\<close>, one constructor per tag.\<close>

datatype log_line =
    BAN int string string
  | UNBAN int string
  | BLOCKED_REQ int string string string
  | REQ int string string string nat

text \<open>The three \<open>console.error\<close> reports of the module.\<close>

datatype console_line = Failed_load | Failed_save | Failed_append

datatype js_error = FsError | SyntaxError | TypeError

text \<open>
  The text of the ban file: empty, not JSON, or the JSON document of a ban map.
  The file itself may be missing.
\<close>

datatype raw_text = EmptyText | Malformed | JsonText "string \<Rightarrow> ban_record option"

text \<open>
  The state of the process and of the files it uses: the directories \<open>data\<close> and
  \<open>logs\<close>, the ban file (\<open>None\<close> when it is missing) and the request log with its lines.
  The file system can fail at any call: \<open>fs_fail s n\<close> tells whether the \<open>n\<close>-th call
  made through \<open>fs\<close> that can throw does throw, and \<open>fs_ops\<close> counts those calls.
\<close>

record state =
  ipTimestamps :: "string \<Rightarrow> int list option"
  banned :: "string \<Rightarrow> ban_record option"
  dataDir_exists :: bool
  logDir_exists :: bool
  bannedFile :: "raw_text option"
  requestLog_exists :: bool
  requestLog :: "log_line list"
  console :: "console_line list"
  fs_fail :: "nat \<Rightarrow> bool"
  fs_ops :: nat

record request =
  req_ip :: "string option"
  x_forwarded_for :: "string option"
  remoteAddress :: "string option"
  req_path :: string
  req_method :: string

text \<open>The clock readings of one run of the middleware: \<open>Date.now()\<close> for the window,
  \<open>new Date()\<close> for the log line, \<open>new Date()\<close> inside \<open>banIp\<close>.\<close>

record times =
  t_now :: int
  t_log :: int
  t_ban :: int

record options =
  opt_maxRequests :: "int option"
  opt_windowMs :: "int option"

text \<open>The answers of the middleware: \<open>next()\<close>, status 403 with the \<open>bannedAt\<close> and
  \<open>reason\<close> of a ban record, status 403 with both \<open>undefined\<close>, and status 429.\<close>

datatype response =
    Next
  | Forbidden403 int string
  | Forbidden403_undefined
  | TooMany429

record admin_body =
  body_adminKey :: "string option"
  body_ip :: "string option"

record admin_request =
  x_admin_key :: "string option"
  req_body :: "admin_body option"
  query_adminKey :: "string option"

datatype admin_response =
    Unbanned200 string
  | Misconfigured500
  | Unauthorized401
  | MissingIp400
  | NotFound404 string

subsection \<open>JavaScript truthiness and number rendering\<close>

text \<open>A string-valued property is falsy when it is absent or the empty string.\<close>

definition truthy :: "string option \<Rightarrow> bool" where
  "truthy v = (case v of None \<Rightarrow> False | Some x \<Rightarrow> x \<noteq> [])"

definition or_str :: "string option \<Rightarrow> string option \<Rightarrow> string option" where
  "or_str a b = (if truthy a then a else b)"

text \<open>\<open>n || d\<close> on an optional number: \<open>undefined\<close> and \<open>0\<close> are falsy.\<close>

definition or_num :: "int option \<Rightarrow> int \<Rightarrow> int" where
  "or_num v d = (case v of None \<Rightarrow> d | Some n \<Rightarrow> if n = 0 then d else n)"

text \<open>Decimal rendering of an integer, as a template literal does it.\<close>

definition digit :: "nat \<Rightarrow> char" where
  "digit n = ''0123456789'' ! (n mod 10)"

function show_nat :: "nat \<Rightarrow> string" where
  "show_nat n = (if n < 10 then [digit n] else show_nat (n div 10) @ [digit (n mod 10)])"
  by pat_completeness auto
termination
  by (relation "measure (\<lambda>n. n)") auto

declare show_nat.simps [simp del]

definition show_int :: "int \<Rightarrow> string" where
  "show_int i = (if i < 0 then CHR ''-'' # show_nat (nat (- i)) else show_nat (nat i))"

subsection \<open>File access\<close>

definition fs_call :: "state \<Rightarrow> bool \<times> state" where
  "fs_call s = (fs_fail s (fs_ops s), s\<lparr>fs_ops := Suc (fs_ops s)\<rparr>)"

definition readFileSync_banned :: "state \<Rightarrow> (js_error + raw_text) \<times> state" where
  "readFileSync_banned s =
     (let (threw, s1) = fs_call s in
      if threw then (Inl FsError, s1)
      else case bannedFile s1 of
             None \<Rightarrow> (Inl FsError, s1)
           | Some raw \<Rightarrow> (Inr raw, s1))"

definition JSON_parse :: "raw_text \<Rightarrow> js_error + (string \<Rightarrow> ban_record option)" where
  "JSON_parse raw =
     (case raw of
        EmptyText \<Rightarrow> Inl SyntaxError
      | Malformed \<Rightarrow> Inl SyntaxError
      | JsonText m \<Rightarrow> Inr m)"

definition writeFileSync_banned :: "state \<Rightarrow> js_error option \<times> state" where
  "writeFileSync_banned s =
     (let (threw, s1) = fs_call s in
      if threw then (Some FsError, s1)
      else (None, s1\<lparr>bannedFile := Some (JsonText (banned s1))\<rparr>))"

definition appendFileSync_log :: "log_line \<Rightarrow> state \<Rightarrow> js_error option \<times> state" where
  "appendFileSync_log line s =
     (let (threw, s1) = fs_call s in
      if threw then (Some FsError, s1)
      else (None, s1\<lparr>requestLog_exists := True, requestLog := requestLog s1 @ [line]\<rparr>))"

text \<open>The calls of \<open>ensureFiles\<close>; \<open>existsSync\<close> does not throw and is read off the
  state.\<close>

definition mkdirSync_data :: "state \<Rightarrow> js_error + state" where
  "mkdirSync_data s =
     (let (threw, s1) = fs_call s in
      if threw then Inl FsError else Inr (s1\<lparr>dataDir_exists := True\<rparr>))"

definition mkdirSync_logs :: "state \<Rightarrow> js_error + state" where
  "mkdirSync_logs s =
     (let (threw, s1) = fs_call s in
      if threw then Inl FsError else Inr (s1\<lparr>logDir_exists := True\<rparr>))"

definition writeFileSync_empty_banned :: "state \<Rightarrow> js_error + state" where
  "writeFileSync_empty_banned s =
     (let (threw, s1) = fs_call s in
      if threw then Inl FsError else Inr (s1\<lparr>bannedFile := Some (JsonText Map.empty)\<rparr>))"

definition writeFileSync_empty_log :: "state \<Rightarrow> js_error + state" where
  "writeFileSync_empty_log s =
     (let (threw, s1) = fs_call s in
      if threw then Inl FsError else Inr (s1\<lparr>requestLog_exists := True, requestLog := []\<rparr>))"

text \<open>\<open>ensureFiles\<close> has no \<open>try\<close>: a call that throws ends it, and with it the loading
  of the module.\<close>

definition ensureFiles :: "state \<Rightarrow> js_error + state" where
  "ensureFiles s =
     (case (if \<not> dataDir_exists s then mkdirSync_data s else Inr s) of
        Inl err \<Rightarrow> Inl err
      | Inr s1 \<Rightarrow>
     (case (if \<not> logDir_exists s1 then mkdirSync_logs s1 else Inr s1) of
        Inl err \<Rightarrow> Inl err
      | Inr s2 \<Rightarrow>
     (case (case bannedFile s2 of None \<Rightarrow> writeFileSync_empty_banned s2 | Some raw \<Rightarrow> Inr s2) of
        Inl err \<Rightarrow> Inl err
      | Inr s3 \<Rightarrow>
          (if \<not> requestLog_exists s3 then writeFileSync_empty_log s3 else Inr s3))))"

definition load_failed :: "state \<Rightarrow> state" where
  "load_failed s = s\<lparr>console := console s @ [Failed_load], banned := Map.empty\<rparr>"

definition loadBanned :: "state \<Rightarrow> state" where
  "loadBanned s =
     (case readFileSync_banned s of
        (Inl err, s1) \<Rightarrow> load_failed s1
      | (Inr raw, s1) \<Rightarrow>
          (case raw of
             EmptyText \<Rightarrow> s1\<lparr>banned := Map.empty\<rparr>
           | _ \<Rightarrow> (case JSON_parse raw of
                     Inl err \<Rightarrow> load_failed s1
                   | Inr m \<Rightarrow> s1\<lparr>banned := m\<rparr>)))"

text \<open>What the module runs when it is loaded: \<open>ensureFiles(); loadBanned();\<close>.\<close>

definition startup :: "state \<Rightarrow> js_error + state" where
  "startup s =
     (case ensureFiles s of
        Inl err \<Rightarrow> Inl err
      | Inr s1 \<Rightarrow> Inr (loadBanned s1))"

definition saveBanned :: "state \<Rightarrow> state" where
  "saveBanned s =
     (case writeFileSync_banned s of
        (Some err, s1) \<Rightarrow> s1\<lparr>console := console s1 @ [Failed_save]\<rparr>
      | (None, s1) \<Rightarrow> s1)"

definition appendLog :: "log_line \<Rightarrow> state \<Rightarrow> state" where
  "appendLog line s =
     (case appendFileSync_log line s of
        (Some err, s1) \<Rightarrow> s1\<lparr>console := console s1 @ [Failed_append]\<rparr>
      | (None, s1) \<Rightarrow> s1)"

subsection \<open>Reading the ban object\<close>

text \<open>
  \<open>banned\<close> is a plain object (\<open>{}\<close>, or what \<open>JSON.parse\<close> returns), so its prototype
  is \<open>Object.prototype\<close>. \<open>Object_prototype\<close> lists the names of the members of
  \<open>Object.prototype\<close>; each is a function, or for \<open>__proto__\<close> the prototype itself,
  hence truthy and without a \<open>bannedAt\<close> or \<open>reason\<close>. \<open>banned_get s ip\<close> is the value
  of \<open>banned[ip]\<close>: the own property when there is one, else the inherited member when
  \<open>ip\<close> names one, else \<open>undefined\<close>.
\<close>

definition Object_prototype :: "string list" where
  "Object_prototype =
     [''constructor'', ''__defineGetter__'', ''__defineSetter__'', ''hasOwnProperty'',
      ''__lookupGetter__'', ''__lookupSetter__'', ''isPrototypeOf'', ''propertyIsEnumerable'',
      ''toString'', ''valueOf'', ''__proto__'', ''toLocaleString'']"

datatype property = Record ban_record | Inherited_member

definition banned_get :: "state \<Rightarrow> string \<Rightarrow> property option" where
  "banned_get s ip =
     (case banned s ip of
        Some info \<Rightarrow> Some (Record info)
      | None \<Rightarrow> if ip \<in> set Object_prototype then Some Inherited_member else None)"

subsection \<open>Banning and unbanning\<close>

text \<open>\<open>banIp(ip, reason = "rate_limit_exceeded")\<close>; \<open>now\<close> is its reading of the clock.\<close>

definition banIp :: "string \<Rightarrow> string option \<Rightarrow> int \<Rightarrow> state \<Rightarrow> state" where
  "banIp ip reason_arg now s =
     (let r = (case reason_arg of None \<Rightarrow> ''rate_limit_exceeded'' | Some x \<Rightarrow> x);
          s1 = s\<lparr>banned := (banned s)(ip \<mapsto>
                 \<lparr>bannedAt = now, reason = r, bannedBy = ''rateLimiter''\<rparr>)\<rparr>;
          s2 = saveBanned s1
      in appendLog (BAN now ip r) s2)"

definition unbanIp :: "string \<Rightarrow> int \<Rightarrow> state \<Rightarrow> bool \<times> state" where
  "unbanIp ip now s =
     (case banned_get s ip of
        Some info \<Rightarrow>
          (let s1 = s\<lparr>banned := (banned s)(ip := None)\<rparr>;
               s2 = saveBanned s1
           in (True, appendLog (UNBAN now ip) s2))
      | None \<Rightarrow> (False, s))"

subsection \<open>The periodic cleanup\<close>

definition cleanup :: "int \<Rightarrow> state \<Rightarrow> state" where
  "cleanup now s =
     s\<lparr>ipTimestamps := (\<lambda>ip.
         case ipTimestamps s ip of
           None \<Rightarrow> None
         | Some arr \<Rightarrow>
             (let filtered = filter (\<lambda>t. now - t \<le> WINDOW_MS) arr
              in if length filtered = 0 then None else Some filtered))\<rparr>"

subsection \<open>The middleware\<close>

definition client_ip :: "request \<Rightarrow> string" where
  "client_ip req =
     (case or_str (or_str (or_str (req_ip req) (x_forwarded_for req)) (remoteAddress req))
             (Some ''unknown'') of
        Some a \<Rightarrow> a
      | None \<Rightarrow> ''unknown'')"

definition recent_of :: "int \<Rightarrow> int \<Rightarrow> int list option \<Rightarrow> int list" where
  "recent_of windowMs now stored =
     (let arr = (case stored of None \<Rightarrow> [] | Some a \<Rightarrow> a) @ [now]
      in filter (\<lambda>t. now - t \<le> windowMs) arr)"

definition ban_reason :: "int \<Rightarrow> int \<Rightarrow> string" where
  "ban_reason maxReq windowMs =
     ''exceeded_'' @ show_int maxReq @ ''_per_'' @ show_int windowMs @ ''ms''"

definition handler :: "int \<Rightarrow> int \<Rightarrow> request \<Rightarrow> times \<Rightarrow> state \<Rightarrow> response \<times> state" where
  "handler maxReq windowMs req tm s =
     (let ip = client_ip req in
      case banned_get s ip of
        Some info \<Rightarrow>
          ((case info of
              Record r \<Rightarrow> Forbidden403 (bannedAt r) (reason r)
            | Inherited_member \<Rightarrow> Forbidden403_undefined),
           appendLog (BLOCKED_REQ (t_log tm) ip (req_path req) (req_method req)) s)
      | None \<Rightarrow>
          (let now = t_now tm;
               recent = recent_of windowMs now (ipTimestamps s ip);
               s1 = s\<lparr>ipTimestamps := (ipTimestamps s)(ip \<mapsto> recent)\<rparr>;
               s2 = appendLog (REQ (t_log tm) ip (req_method req) (req_path req) (length recent)) s1
           in if int (length recent) > maxReq
              then (TooMany429, banIp ip (Some (ban_reason maxReq windowMs)) (t_ban tm) s2)
              else (Next, s2)))"

definition rateLimiterMiddleware ::
  "options \<Rightarrow> request \<Rightarrow> times \<Rightarrow> state \<Rightarrow> response \<times> state" where
  "rateLimiterMiddleware opts =
     (let maxReq = or_num (opt_maxRequests opts) MAX_REQUESTS;
          windowMs = or_num (opt_windowMs opts) WINDOW_MS
      in handler maxReq windowMs)"

subsection \<open>The admin handler\<close>

text \<open>\<open>admin_key\<close> is \<open>process.env.ADMIN_KEY\<close>; \<open>provided\<close> is the key the request carries
  in its header, body or query; reading \<open>ip\<close> from an undefined body throws a
  \<open>TypeError\<close>; \<open>now\<close> is the clock reading of \<open>unbanIp\<close>.\<close>

definition provided :: "admin_request \<Rightarrow> string option" where
  "provided req =
     or_str (or_str (x_admin_key req)
               (case req_body req of None \<Rightarrow> None | Some b \<Rightarrow> body_adminKey b))
            (query_adminKey req)"

definition adminUnbanHandler ::
  "string option \<Rightarrow> admin_request \<Rightarrow> int \<Rightarrow> state \<Rightarrow> (js_error + admin_response) \<times> state" where
  "adminUnbanHandler admin_key req now s =
     (let adminKey = or_str admin_key None
      in if \<not> truthy adminKey then (Inr Misconfigured500, s)
         else if \<not> truthy (provided req) \<or> provided req \<noteq> adminKey
         then (Inr Unauthorized401, s)
         else case req_body req of
                None \<Rightarrow> (Inl TypeError, s)
              | Some b \<Rightarrow>
                  if \<not> truthy (body_ip b) then (Inr MissingIp400, s)
                  else (let ip = the (body_ip b) in
                        case unbanIp ip now s of
                          (True, s1) \<Rightarrow> (Inr (Unbanned200 ip), s1)
                        | (False, s1) \<Rightarrow> (Inr (NotFound404 ip), s1)))"

subsection \<open>Serving requests one after another\<close>

text \<open>\<open>tracked s ip\<close> is \<open>ipTimestamps.get(ip) || []\<close>; \<open>run\<close> hands a list of
  requests, each with its clock readings, to a middleware in order.\<close>

definition tracked :: "state \<Rightarrow> string \<Rightarrow> int list" where
  "tracked s ip = (case ipTimestamps s ip of None \<Rightarrow> [] | Some a \<Rightarrow> a)"

fun run :: "(request \<Rightarrow> times \<Rightarrow> state \<Rightarrow> response \<times> state) \<Rightarrow> (request \<times> times) list \<Rightarrow> state
    \<Rightarrow> response list \<times> state" where
  "run mw [] s = ([], s)"
| "run mw (e # es) s =
     (let (r, s1) = mw (fst e) (snd e) s;
          (rs, s2) = run mw es s1
      in (r # rs, s2))"

subsection \<open>Requests and cleanup runs in any order\<close>

datatype event = Incoming request times | Cleanup int

fun step :: "int \<Rightarrow> int \<Rightarrow> event \<Rightarrow> state \<Rightarrow> state" where
  "step maxReq windowMs (Incoming req tm) s = snd (handler maxReq windowMs req tm s)"
| "step maxReq windowMs (Cleanup now) s = cleanup now s"

definition steps :: "int \<Rightarrow> int \<Rightarrow> event list \<Rightarrow> state \<Rightarrow> state" where
  "steps maxReq windowMs evs s = fold (step maxReq windowMs) evs s"

subsection \<open>Concrete inputs\<close>

text \<open>A process just started on an empty ban file, with a file system that never fails, a
  request from a given address, and clock readings that all show the same instant.\<close>

definition init :: state where
  "init = \<lparr>ipTimestamps = Map.empty, banned = Map.empty,
            dataDir_exists = True, logDir_exists = True,
            bannedFile = Some (JsonText Map.empty),
            requestLog_exists = True, requestLog = [], console = [],
            fs_fail = (\<lambda>n. False), fs_ops = 0\<rparr>"

definition req_from :: "string \<Rightarrow> request" where
  "req_from a = \<lparr>req_ip = Some a, x_forwarded_for = None, remoteAddress = None,
                  req_path = ''/'', req_method = ''GET''\<rparr>"

definition at :: "int \<Rightarrow> times" where
  "at t = \<lparr>t_now = t, t_log = t, t_ban = t\<rparr>"

text \<open>Four requests from \<open>A\<close> at 0, 100, 200 and 300 ms with \<open>maxRequests = 3\<close> and
  \<open>windowMs = 1000\<close>, and the state they leave behind.\<close>

definition scenario_reqs :: "(request \<times> times) list" where
  "scenario_reqs = [(req_from ''A'', at 0), (req_from ''A'', at 100), (req_from ''A'', at 200),
                    (req_from ''A'', at 300)]"

definition after_ban :: state where
  "after_ban = snd (run (handler 3 1000) scenario_reqs init)"

text \<open>An admin request with a parsed body, carrying a key in its header and an address
  in its body.\<close>

definition admin_req :: "string option \<Rightarrow> string option \<Rightarrow> admin_request" where
  "admin_req key ip =
     \<lparr>x_admin_key = key,
      req_body = Some \<lparr>body_adminKey = None, body_ip = ip\<rparr>,
      query_adminKey = None\<rparr>"

text \<open>A process whose every file-system call throws, with three requests from \<open>A\<close>
  already in the window; a first start, with no directory and no file yet; the same on
  a file system whose every call throws; and a start on a ban file that is not JSON.\<close>

definition failing_disk :: state where
  "failing_disk = init\<lparr>ipTimestamps := [''A'' \<mapsto> [0, 100, 200]], fs_fail := (\<lambda>n. True)\<rparr>"

definition first_run :: state where
  "first_run = init\<lparr>dataDir_exists := False, logDir_exists := False, bannedFile := None,
                    requestLog_exists := False\<rparr>"

definition first_run_failing :: state where
  "first_run_failing = first_run\<lparr>fs_fail := (\<lambda>n. True)\<rparr>"

definition corrupt_file :: state where
  "corrupt_file = init\<lparr>bannedFile := Some Malformed\<rparr>"

text \<open>A process that has one request from \<open>A\<close>, at instant 0, in its tracker.\<close>

definition one_request :: state where
  "one_request = init\<lparr>ipTimestamps := [''A'' \<mapsto> [0]]\<rparr>"

text \<open>A request for which Express found no address, no forwarding header came and the
  socket has no remote address.\<close>

definition no_identifier :: "request \<Rightarrow> bool" where
  "no_identifier req =
     (\<not> truthy (req_ip req) \<and> \<not> truthy (x_forwarded_for req) \<and> \<not> truthy (remoteAddress req))"

definition anonymous :: "string \<Rightarrow> request" where
  "anonymous p = \<lparr>req_ip = None, x_forwarded_for = Some [], remoteAddress = None,
                   req_path = p, req_method = ''GET''\<rparr>"

section \<open>Properties\<close>

subsection \<open>Facts about the functions of the module\<close>

lemma fs_call_fields [simp]:
  "fst (fs_call s) = fs_fail s (fs_ops s)"
  "ipTimestamps (snd (fs_call s)) = ipTimestamps s"
  "banned (snd (fs_call s)) = banned s"
  "bannedFile (snd (fs_call s)) = bannedFile s"
  "requestLog (snd (fs_call s)) = requestLog s"
  "console (snd (fs_call s)) = console s"
  "fs_fail (snd (fs_call s)) = fs_fail s"
  "fs_ops (snd (fs_call s)) = Suc (fs_ops s)"
  by (simp_all add: fs_call_def)

lemma saveBanned_fields [simp]:
  "ipTimestamps (saveBanned s) = ipTimestamps s"
  "banned (saveBanned s) = banned s"
  "requestLog (saveBanned s) = requestLog s"
  "fs_fail (saveBanned s) = fs_fail s"
  "fs_ops (saveBanned s) = Suc (fs_ops s)"
  by (simp_all add: saveBanned_def writeFileSync_banned_def fs_call_def)

lemma saveBanned_file:
  "bannedFile (saveBanned s) =
     (if fs_fail s (fs_ops s) then bannedFile s else Some (JsonText (banned s)))"
  by (simp add: saveBanned_def writeFileSync_banned_def fs_call_def)

lemma saveBanned_console:
  "console (saveBanned s) =
     (if fs_fail s (fs_ops s) then console s @ [Failed_save] else console s)"
  by (simp add: saveBanned_def writeFileSync_banned_def fs_call_def)

lemma appendLog_fields [simp]:
  "ipTimestamps (appendLog l s) = ipTimestamps s"
  "banned (appendLog l s) = banned s"
  "bannedFile (appendLog l s) = bannedFile s"
  "fs_fail (appendLog l s) = fs_fail s"
  "fs_ops (appendLog l s) = Suc (fs_ops s)"
  by (simp_all add: appendLog_def appendFileSync_log_def fs_call_def)

lemma appendLog_log:
  "requestLog (appendLog l s) =
     (if fs_fail s (fs_ops s) then requestLog s else requestLog s @ [l])"
  by (simp add: appendLog_def appendFileSync_log_def fs_call_def)

lemma appendLog_console:
  "console (appendLog l s) =
     (if fs_fail s (fs_ops s) then console s @ [Failed_append] else console s)"
  by (simp add: appendLog_def appendFileSync_log_def fs_call_def)

lemma banIp_fields [simp]:
  "ipTimestamps (banIp ip r now s) = ipTimestamps s"
  "fs_fail (banIp ip r now s) = fs_fail s"
  "fs_ops (banIp ip r now s) = Suc (Suc (fs_ops s))"
  by (simp_all add: banIp_def Let_def)

lemma banIp_banned:
  "banned (banIp ip r now s) =
     (banned s)(ip \<mapsto> \<lparr>bannedAt = now,
        reason = (case r of None \<Rightarrow> ''rate_limit_exceeded'' | Some x \<Rightarrow> x),
        bannedBy = ''rateLimiter''\<rparr>)"
  by (simp add: banIp_def Let_def)

lemma run_Cons:
  "run mw (e # es) s =
     (fst (mw (fst e) (snd e) s) # fst (run mw es (snd (mw (fst e) (snd e) s))),
      snd (run mw es (snd (mw (fst e) (snd e) s))))"
  by (simp add: Let_def split: prod.splits)

lemma run_append:
  "run mw (xs @ ys) s =
     (fst (run mw xs s) @ fst (run mw ys (snd (run mw xs s))), snd (run mw ys (snd (run mw xs s))))"
  by (induction xs arbitrary: s) (simp_all add: run_Cons del: run.simps(2))

lemma recent_of_tracked:
  "recent_of W now (ipTimestamps s ip) = filter (\<lambda>t. now - t \<le> W) (tracked s ip @ [now])"
  by (simp add: recent_of_def tracked_def Let_def)

lemma banned_get_None:
  "banned_get s ip = None \<longleftrightarrow> banned s ip = None \<and> ip \<notin> set Object_prototype"
  by (simp add: banned_get_def split: option.splits)

lemma banned_get_record:
  "banned s ip = Some info \<Longrightarrow> banned_get s ip = Some (Record info)"
  by (simp add: banned_get_def)

lemma banned_get_inherited:
  "banned s ip = None \<Longrightarrow> ip \<in> set Object_prototype \<Longrightarrow> banned_get s ip = Some Inherited_member"
  by (simp add: banned_get_def)

lemma banned_get_tracker_update [simp]:
  "banned_get (s\<lparr>ipTimestamps := m\<rparr>) ip = banned_get s ip"
  by (simp add: banned_get_def)

lemma banned_get_cleanup [simp]:
  "banned_get (cleanup now s) ip = banned_get s ip"
  by (simp add: banned_get_def cleanup_def)

lemma handler_blocked:
  "banned_get s (client_ip req) = Some v \<Longrightarrow>
   handler M W req tm s =
     ((case v of
         Record r \<Rightarrow> Forbidden403 (bannedAt r) (reason r)
       | Inherited_member \<Rightarrow> Forbidden403_undefined),
      appendLog (BLOCKED_REQ (t_log tm) (client_ip req) (req_path req) (req_method req)) s)"
  by (simp add: handler_def Let_def)

lemma handler_banned:
  "banned s (client_ip req) = Some info \<Longrightarrow>
   handler M W req tm s =
     (Forbidden403 (bannedAt info) (reason info),
      appendLog (BLOCKED_REQ (t_log tm) (client_ip req) (req_path req) (req_method req)) s)"
  by (simp add: handler_blocked [OF banned_get_record])

lemma handler_inherited:
  "banned s (client_ip req) = None \<Longrightarrow> client_ip req \<in> set Object_prototype \<Longrightarrow>
   handler M W req tm s =
     (Forbidden403_undefined,
      appendLog (BLOCKED_REQ (t_log tm) (client_ip req) (req_path req) (req_method req)) s)"
  by (simp add: handler_blocked [OF banned_get_inherited])

lemma handler_resp:
  "banned_get s (client_ip req) = None \<Longrightarrow>
   fst (handler M W req tm s) =
     (if int (length (recent_of W (t_now tm) (ipTimestamps s (client_ip req)))) > M
      then TooMany429 else Next)"
  by (simp add: handler_def Let_def)

lemma handler_tracker:
  "banned_get s (client_ip req) = None \<Longrightarrow>
   ipTimestamps (snd (handler M W req tm s)) =
     (ipTimestamps s)(client_ip req \<mapsto> recent_of W (t_now tm) (ipTimestamps s (client_ip req)))"
  by (simp add: handler_def Let_def)

lemma handler_bans:
  "banned_get s (client_ip req) = None \<Longrightarrow>
   banned (snd (handler M W req tm s)) =
     (if int (length (recent_of W (t_now tm) (ipTimestamps s (client_ip req)))) > M
      then (banned s)(client_ip req \<mapsto>
             \<lparr>bannedAt = t_ban tm, reason = ban_reason M W, bannedBy = ''rateLimiter''\<rparr>)
      else banned s)"
  by (simp add: handler_def Let_def banIp_banned)

lemma run_within_window:
  assumes "\<forall>e\<in>set evs. client_ip (fst e) = ip"
    and "banned s ip = None"
    and "sorted_wrt (\<lambda>t t'. t' - t \<le> W) (tracked s ip @ map (\<lambda>e. t_now (snd e)) evs)"
    and "0 \<le> W"
    and "int (length (tracked s ip) + length evs) \<le> M"
    and "ip \<notin> set Object_prototype"
  shows "fst (run (handler M W) evs s) = replicate (length evs) Next
       \<and> banned (snd (run (handler M W) evs s)) = banned s
       \<and> tracked (snd (run (handler M W) evs s)) ip = tracked s ip @ map (\<lambda>e. t_now (snd e)) evs"
  using assms
proof (induction evs arbitrary: s)
  case Nil
  then show ?case by simp
next
  case (Cons e es)
  let ?s1 = "snd (handler M W (fst e) (snd e) s)"
  have ip: "client_ip (fst e) = ip" using Cons.prems(1) by simp
  have nb: "banned_get s (client_ip (fst e)) = None"
    using Cons.prems(2,6) ip by (simp add: banned_get_None)
  have old: "\<forall>t\<in>set (tracked s ip). t_now (snd e) - t \<le> W"
    using Cons.prems(3) by (auto simp: sorted_wrt_append)
  have rec: "recent_of W (t_now (snd e)) (ipTimestamps s ip) = tracked s ip @ [t_now (snd e)]"
    using old Cons.prems(4) by (simp add: recent_of_tracked)
  have len: "\<not> int (length (tracked s ip @ [t_now (snd e)])) > M"
    using Cons.prems(5) by simp
  have r1: "fst (handler M W (fst e) (snd e) s) = Next"
    using handler_resp [OF nb] ip rec len by simp
  have b1: "banned ?s1 = banned s"
    using handler_bans [OF nb] ip rec len by simp
  have t1: "tracked ?s1 ip = tracked s ip @ [t_now (snd e)]"
    using handler_tracker [OF nb] ip rec by (simp add: tracked_def)
  have IH: "fst (run (handler M W) es ?s1) = replicate (length es) Next
       \<and> banned (snd (run (handler M W) es ?s1)) = banned ?s1
       \<and> tracked (snd (run (handler M W) es ?s1)) ip = tracked ?s1 ip @ map (\<lambda>e. t_now (snd e)) es"
    apply (rule Cons.IH)
    using Cons.prems b1 t1 by simp_all
  show ?case
    using IH r1 b1 t1 by (simp add: run_Cons del: run.simps(2))
qed

lemma run_threshold:
  assumes "0 \<le> W" and "int (length pre) = M"
    and "\<forall>e\<in>set (pre @ [lst]). client_ip (fst e) = ip"
    and "banned s ip = None" and "tracked s ip = []"
    and "sorted_wrt (\<lambda>t t'. t' - t \<le> W) (map (\<lambda>e. t_now (snd e)) (pre @ [lst]))"
    and "ip \<notin> set Object_prototype"
  shows "fst (run (handler M W) (pre @ [lst]) s) = replicate (length pre) Next @ [TooMany429]"
    and "banned (snd (run (handler M W) pre s)) = banned s"
    and "tracked (snd (run (handler M W) pre s)) ip = map (\<lambda>e. t_now (snd e)) pre"
    and "banned (snd (run (handler M W) (pre @ [lst]) s))
           = (banned s)(ip \<mapsto> \<lparr>bannedAt = t_ban (snd lst), reason = ban_reason M W,
                                 bannedBy = ''rateLimiter''\<rparr>)"
proof -
  let ?mw = "handler M W"
  let ?s1 = "snd (run ?mw pre s)"
  have pre: "fst (run ?mw pre s) = replicate (length pre) Next
       \<and> banned ?s1 = banned s
       \<and> tracked ?s1 ip = tracked s ip @ map (\<lambda>e. t_now (snd e)) pre"
    apply (rule run_within_window)
    using assms by (simp_all add: sorted_wrt_append)
  have ip: "client_ip (fst lst) = ip" using assms(3) by simp
  have nb: "banned_get ?s1 (client_ip (fst lst)) = None"
    using pre ip assms(4,7) by (simp add: banned_get_None)
  have old: "\<forall>t\<in>set (map (\<lambda>e. t_now (snd e)) pre). t_now (snd lst) - t \<le> W"
    using assms(6) by (auto simp: sorted_wrt_append)
  have rec: "recent_of W (t_now (snd lst)) (ipTimestamps ?s1 ip)
           = map (\<lambda>e. t_now (snd e)) pre @ [t_now (snd lst)]"
    using old assms(1,5) pre by (simp add: recent_of_tracked)
  have over: "int (length (recent_of W (t_now (snd lst)) (ipTimestamps ?s1 ip))) > M"
    using rec assms(2) by simp
  have r: "fst (?mw (fst lst) (snd lst) ?s1) = TooMany429"
    using handler_resp [OF nb] over ip by simp
  have b: "banned (snd (?mw (fst lst) (snd lst) ?s1))
         = (banned s)(ip \<mapsto> \<lparr>bannedAt = t_ban (snd lst), reason = ban_reason M W,
                               bannedBy = ''rateLimiter''\<rparr>)"
    using handler_bans [OF nb] over ip pre by simp
  show "fst (run ?mw (pre @ [lst]) s) = replicate (length pre) Next @ [TooMany429]"
    using pre r by (simp add: run_append run_Cons del: run.simps(2))
  show "banned ?s1 = banned s" using pre by simp
  show "tracked ?s1 ip = map (\<lambda>e. t_now (snd e)) pre" using pre assms(5) by simp
  show "banned (snd (run ?mw (pre @ [lst]) s))
           = (banned s)(ip \<mapsto> \<lparr>bannedAt = t_ban (snd lst), reason = ban_reason M W,
                                 bannedBy = ''rateLimiter''\<rparr>)"
    using b by (simp add: run_append run_Cons del: run.simps(2))
qed

lemma middleware_handler:
  "rateLimiterMiddleware opts =
     handler (or_num (opt_maxRequests opts) MAX_REQUESTS) (or_num (opt_windowMs opts) WINDOW_MS)"
  by (simp add: rateLimiterMiddleware_def Let_def)

lemma client_ip_req_from: "client_ip (req_from ''A'') = ''A''"
  by (simp add: client_ip_def req_from_def or_str_def truthy_def)

lemma req_from_fields: "req_path (req_from a) = ''/''" "req_method (req_from a) = ''GET''"
  by (simp_all add: req_from_def)

lemma client_ip_req_from_constructor: "client_ip (req_from ''constructor'') = ''constructor''"
  by (simp add: client_ip_def req_from_def or_str_def truthy_def)

lemma constructor_inherited: "''constructor'' \<in> set Object_prototype"
  by (simp add: Object_prototype_def)

lemma toString_inherited: "''toString'' \<in> set Object_prototype"
  by (simp add: Object_prototype_def)

lemma A_not_inherited: "''A'' \<notin> set Object_prototype"
  by (simp add: Object_prototype_def)

lemma unknown_not_inherited: "''unknown'' \<notin> set Object_prototype"
  by (simp add: Object_prototype_def)

lemma ban_reason_3_1000: "ban_reason 3 1000 = ''exceeded_3_per_1000ms''"
  by (simp add: ban_reason_def show_int_def show_nat.simps digit_def)

lemma after_ban_tracker: "ipTimestamps after_ban ''A'' = Some [0, 100, 200, 300]"
  by (simp add: after_ban_def scenario_reqs_def init_def at_def handler_def client_ip_req_from
      recent_of_def Let_def banIp_def banned_get_def A_not_inherited)

lemma after_ban_banned:
  "banned after_ban = [''A'' \<mapsto> \<lparr>bannedAt = 300, reason = ''exceeded_3_per_1000ms'',
                                 bannedBy = ''rateLimiter''\<rparr>]"
  by (simp add: after_ban_def scenario_reqs_def init_def at_def handler_def client_ip_req_from
      recent_of_def Let_def banIp_banned ban_reason_3_1000 banned_get_def A_not_inherited)

lemma after_ban_fs: "fs_fail after_ban = (\<lambda>n. False)" "fs_ops after_ban = 6"
  by (simp_all add: after_ban_def scenario_reqs_def init_def at_def handler_def client_ip_req_from
      recent_of_def Let_def banned_get_def A_not_inherited)

lemma cleanup_fields [simp]:
  "banned (cleanup now s) = banned s"
  "bannedFile (cleanup now s) = bannedFile s"
  "requestLog (cleanup now s) = requestLog s"
  "console (cleanup now s) = console s"
  "fs_fail (cleanup now s) = fs_fail s"
  "fs_ops (cleanup now s) = fs_ops s"
  by (simp_all add: cleanup_def)

lemma handler_keeps_ban:
  assumes "banned s ip = Some info"
  shows "banned (snd (handler M W req tm s)) ip = Some info"
proof (cases "banned_get s (client_ip req)")
  case None
  then have "client_ip req \<noteq> ip" using assms by (auto simp: banned_get_None)
  then show ?thesis using handler_bans [OF None] assms by simp
next
  case (Some v)
  then show ?thesis using assms by (simp add: handler_blocked)
qed

lemma step_keeps_ban:
  "banned s ip = Some info \<Longrightarrow> banned (step M W e s) ip = Some info"
  by (cases e) (simp_all add: handler_keeps_ban)

lemma steps_keep_ban:
  "banned s ip = Some info \<Longrightarrow> banned (steps M W evs s) ip = Some info"
  unfolding steps_def
  by (induction evs arbitrary: s) (simp_all add: step_keeps_ban)

lemma appendLog_tracker_update:
  "appendLog l (s\<lparr>ipTimestamps := m\<rparr>) = (appendLog l s)\<lparr>ipTimestamps := m\<rparr>"
  by (simp add: appendLog_def appendFileSync_log_def fs_call_def)

lemma handler_tracked:
  assumes "banned_get s (client_ip req) = None" and "0 \<le> W"
  shows "tracked (snd (handler M W req tm s)) (client_ip req)
           = filter (\<lambda>t. t_now tm - t \<le> W) (tracked s (client_ip req)) @ [t_now tm]"
proof -
  have "tracked (snd (handler M W req tm s)) (client_ip req)
          = recent_of W (t_now tm) (ipTimestamps s (client_ip req))"
    using assms(1) by (simp add: tracked_def handler_tracker)
  then show ?thesis using assms(2) by (simp add: recent_of_tracked)
qed

lemma handler_decision:
  assumes "banned_get s (client_ip req) = None" and "0 \<le> W"
  shows "fst (handler M W req tm s)
           = (if M < 1 + int (length (filter (\<lambda>t. t_now tm - t \<le> W) (tracked s (client_ip req))))
              then TooMany429 else Next)"
  using assms by (simp add: handler_resp recent_of_tracked)

lemma handler_log:
  assumes "banned_get s (client_ip req) = None" and "0 \<le> W" and "\<not> fs_fail s (fs_ops s)"
  shows "take (Suc (length (requestLog s))) (requestLog (snd (handler M W req tm s)))
           = requestLog s @ [REQ (t_log tm) (client_ip req) (req_method req) (req_path req)
               (Suc (length (filter (\<lambda>t. t_now tm - t \<le> W) (tracked s (client_ip req)))))]"
  using assms
  by (simp add: handler_def Let_def recent_of_tracked banIp_def saveBanned_def
      writeFileSync_banned_def appendLog_def appendFileSync_log_def fs_call_def tracked_def
      split: prod.splits option.splits)

lemma unbanIp_banned:
  "banned s ip \<noteq> None \<Longrightarrow>
   fst (unbanIp ip now s) = True
   \<and> banned (snd (unbanIp ip now s)) = (banned s)(ip := None)
   \<and> ipTimestamps (snd (unbanIp ip now s)) = ipTimestamps s"
  by (auto simp: unbanIp_def Let_def banned_get_def)

lemma unbanIp_absent:
  "banned_get s ip = None \<Longrightarrow> unbanIp ip now s = (False, s)"
  by (simp add: unbanIp_def)

lemma unbanIp_inherited:
  "banned s ip = None \<Longrightarrow> ip \<in> set Object_prototype \<Longrightarrow>
   unbanIp ip now s = (True, appendLog (UNBAN now ip) (saveBanned s))"
  by (simp add: unbanIp_def banned_get_def Let_def fun_upd_idem)

lemma after_ban_tracked: "tracked after_ban ''A'' = [0, 100, 200, 300]"
  by (simp add: tracked_def after_ban_tracker)

lemma loadBanned_unreadable:
  assumes "fs_fail s (fs_ops s) \<or> bannedFile s = None \<or> bannedFile s = Some Malformed"
  shows "banned (loadBanned s) = Map.empty \<and> console (loadBanned s) = console s @ [Failed_load]"
  using assms
  by (auto simp: loadBanned_def readFileSync_banned_def fs_call_def load_failed_def JSON_parse_def)

lemma ensureFiles_all_present:
  assumes "dataDir_exists s" and "logDir_exists s" and "bannedFile s \<noteq> None"
    and "requestLog_exists s"
  shows "ensureFiles s = Inr s"
  using assms by (auto simp: ensureFiles_def)

lemma startup_missing_file:
  assumes "bannedFile s = None" and "\<forall>n. \<not> fs_fail s n"
  shows "\<not> isl (startup s)
       \<and> banned (projr (startup s)) = Map.empty
       \<and> bannedFile (projr (startup s)) = Some (JsonText Map.empty)
       \<and> console (projr (startup s)) = console s"
  using assms
  by (simp add: startup_def ensureFiles_def mkdirSync_data_def mkdirSync_logs_def
      writeFileSync_empty_banned_def writeFileSync_empty_log_def fs_call_def loadBanned_def
      readFileSync_banned_def JSON_parse_def)

lemma handler_over_failing_disk:
  assumes "\<forall>n. fs_fail s n" and "banned_get s (client_ip req) = None"
    and "M < int (length (recent_of W (t_now tm) (ipTimestamps s (client_ip req))))"
  shows "bannedFile (snd (handler M W req tm s)) = bannedFile s
       \<and> requestLog (snd (handler M W req tm s)) = requestLog s
       \<and> console (snd (handler M W req tm s))
           = console s @ [Failed_append, Failed_save, Failed_append]"
  using assms
  by (simp add: handler_def Let_def banIp_def saveBanned_file saveBanned_console
      appendLog_log appendLog_console)

lemma cleanup_tracked:
  "tracked (cleanup now s) ip = filter (\<lambda>t. now - t \<le> 10000) (tracked s ip)"
  by (simp add: tracked_def cleanup_def WINDOW_MS_def Let_def split: option.splits)

lemma filter_filter_less:
  assumes "x \<in> set xs" and "Q x" and "\<not> P x"
  shows "length (filter Q (filter P xs)) < length (filter Q xs)"
proof -
  have le: "length (filter Q (filter P ys)) \<le> length (filter Q ys)" for ys
    by (induction ys) auto
  show ?thesis using assms
  proof (induction xs)
    case Nil
    then show ?case by simp
  next
    case (Cons y ys)
    show ?case
    proof (cases "x = y")
      case True
      then show ?thesis using Cons.prems le [of ys] by simp
    next
      case False
      then have "x \<in> set ys" using Cons.prems by simp
      then show ?thesis using Cons.IH Cons.prems by simp
    qed
  qed
qed

lemma client_ip_unknown: "no_identifier req \<Longrightarrow> client_ip req = ''unknown''"
  by (simp add: no_identifier_def client_ip_def or_str_def truthy_def)

lemma banIp_file:
  "\<not> fs_fail s (fs_ops s) \<Longrightarrow>
   bannedFile (banIp ip r now s) = Some (JsonText (banned (banIp ip r now s)))"
  by (simp add: banIp_def Let_def saveBanned_file)

subsection \<open>C1: the threshold\<close>

text \<open>
  C1. The first \<open>maxRequests\<close> requests of an address without a ban record are to be
  passed on, and the next one banned. The code does not do so for an address that names
  a member of \<open>Object.prototype\<close>: on a process just started, with \<open>maxRequests = 3\<close>
  and \<open>windowMs = 1000\<close>, four requests from \<open>constructor\<close> at 0, 100, 200 and 300 ms
  are all answered with status 403 without \<open>bannedAt\<close> or \<open>reason\<close>; none is counted and
  no ban record is made.
\<close>

theorem inherited_name_blocked_from_first_request:
  "fst (run (rateLimiterMiddleware \<lparr>opt_maxRequests = Some 3, opt_windowMs = Some 1000\<rparr>)
         [(req_from ''constructor'', at 0), (req_from ''constructor'', at 100),
          (req_from ''constructor'', at 200), (req_from ''constructor'', at 300)] init)
     = [Forbidden403_undefined, Forbidden403_undefined, Forbidden403_undefined,
        Forbidden403_undefined]
   \<and> banned (snd (run (rateLimiterMiddleware \<lparr>opt_maxRequests = Some 3, opt_windowMs = Some 1000\<rparr>)
         [(req_from ''constructor'', at 0), (req_from ''constructor'', at 100),
          (req_from ''constructor'', at 200), (req_from ''constructor'', at 300)] init))
       ''constructor'' = None
   \<and> ipTimestamps (snd (run (rateLimiterMiddleware \<lparr>opt_maxRequests = Some 3, opt_windowMs = Some 1000\<rparr>)
         [(req_from ''constructor'', at 0), (req_from ''constructor'', at 100),
          (req_from ''constructor'', at 200), (req_from ''constructor'', at 300)] init))
       ''constructor'' = None"
proof -
  have step: "handler 3 1000 (req_from ''constructor'') tm s
      = (Forbidden403_undefined,
         appendLog (BLOCKED_REQ (t_log tm) ''constructor'' ''/'' ''GET'') s)"
    if "banned s ''constructor'' = None" for tm s
    using handler_inherited [of s "req_from ''constructor''" 3 1000 tm] that
    by (simp add: client_ip_req_from_constructor constructor_inherited req_from_fields)
  have mw: "rateLimiterMiddleware \<lparr>opt_maxRequests = Some 3, opt_windowMs = Some 1000\<rparr>
      = handler 3 1000"
    by (simp add: middleware_handler or_num_def)
  have i: "banned init ''constructor'' = None" "ipTimestamps init ''constructor'' = None"
    by (simp_all add: init_def)
  show ?thesis
    by (simp add: mw run_Cons step i del: run.simps(2))
qed

text \<open>
  For an address that names no such member the threshold is as described: the address
  is not banned and has no recorded requests, and sends \<open>maxRequests + 1\<close> requests, each
  at most \<open>windowMs\<close> after every earlier one. The first \<open>maxRequests\<close> are passed on
  (\<open>Next\<close>) and leave the address unbanned; the next one is answered with status 429 and
  the address has a ban record as soon as that call returns.
\<close>

lemma limiter_allows_maxRequests_then_bans:
  assumes "maxReq = or_num (opt_maxRequests opts) MAX_REQUESTS"
    and "windowMs = or_num (opt_windowMs opts) WINDOW_MS"
    and "0 \<le> windowMs"
    and "int (length pre) = maxReq"
    and "\<forall>e\<in>set (pre @ [lst]). client_ip (fst e) = ip"
    and "banned s ip = None"
    and "tracked s ip = []"
    and "sorted_wrt (\<lambda>t t'. t' - t \<le> windowMs) (map (\<lambda>e. t_now (snd e)) (pre @ [lst]))"
    and "ip \<notin> set Object_prototype"
  shows "fst (run (rateLimiterMiddleware opts) (pre @ [lst]) s)
           = replicate (length pre) Next @ [TooMany429]
       \<and> banned (snd (run (rateLimiterMiddleware opts) pre s)) ip = None
       \<and> banned (snd (run (rateLimiterMiddleware opts) (pre @ [lst]) s)) ip
           = Some \<lparr>bannedAt = t_ban (snd lst), reason = ban_reason maxReq windowMs,
                   bannedBy = ''rateLimiter''\<rparr>"
proof -
  have mw: "rateLimiterMiddleware opts = handler maxReq windowMs"
    using assms(1,2) by (simp add: middleware_handler)
  note th = run_threshold [OF assms(3,4,5,6,7,8,9)]
  show ?thesis using th assms(6) by (simp add: mw)
qed

lemma limiter_allows_maxRequests_then_bans_example:
  "fst (run (rateLimiterMiddleware \<lparr>opt_maxRequests = Some 3, opt_windowMs = Some 1000\<rparr>)
         [(req_from ''A'', at 0), (req_from ''A'', at 100), (req_from ''A'', at 200),
          (req_from ''A'', at 300)] init)
     = [Next, Next, Next, TooMany429]
   \<and> banned (snd (run (rateLimiterMiddleware \<lparr>opt_maxRequests = Some 3, opt_windowMs = Some 1000\<rparr>)
         [(req_from ''A'', at 0), (req_from ''A'', at 100), (req_from ''A'', at 200),
          (req_from ''A'', at 300)] init)) ''A''
     = Some \<lparr>bannedAt = 300, reason = ''exceeded_3_per_1000ms'', bannedBy = ''rateLimiter''\<rparr>"
proof -
  let ?opts = "\<lparr>opt_maxRequests = Some 3, opt_windowMs = Some 1000\<rparr>"
  let ?pre = "[(req_from ''A'', at 0), (req_from ''A'', at 100), (req_from ''A'', at 200)]"
  let ?lst = "(req_from ''A'', at 300)"
  have ip: "client_ip (req_from ''A'') = ''A''"
    by (simp add: client_ip_def req_from_def or_str_def truthy_def)
  have h1: "(3::int) = or_num (opt_maxRequests ?opts) MAX_REQUESTS"
    by (simp add: or_num_def)
  have h2: "(1000::int) = or_num (opt_windowMs ?opts) WINDOW_MS"
    by (simp add: or_num_def)
  have h3: "(0::int) \<le> 1000" by simp
  have h4: "int (length ?pre) = 3" by simp
  have h5: "\<forall>e\<in>set (?pre @ [?lst]). client_ip (fst e) = ''A''"
    by (simp add: ip)
  have h6: "banned init ''A'' = None" by (simp add: init_def)
  have h7: "tracked init ''A'' = []" by (simp add: tracked_def init_def)
  have h8: "sorted_wrt (\<lambda>t t'. t' - t \<le> 1000) (map (\<lambda>e. t_now (snd e)) (?pre @ [?lst]))"
    by (simp add: at_def)
  have r: "ban_reason 3 1000 = ''exceeded_3_per_1000ms''"
    by (simp add: ban_reason_def show_int_def show_nat.simps digit_def)
  show ?thesis
    using limiter_allows_maxRequests_then_bans [OF h1 h2 h3 h4 h5 h6 h7 h8 A_not_inherited]
    by (simp add: r at_def del: run.simps)
qed

subsection \<open>C2: banning twice\<close>

text \<open>
  C2 (as the code has it). \<open>banIp\<close> writes a new record whether or not the address
  already has one: \<open>bannedAt\<close> is the instant of this call and \<open>reason\<close> the reason of
  this call, so the last ban wins and an earlier record with another \<open>bannedAt\<close> is
  replaced. The records of other addresses stay, and the file holds the new map when the
  write does not fail.
\<close>

theorem banIp_overwrites_record:
  "banned (banIp ip r now s) =
     (banned s)(ip \<mapsto> \<lparr>bannedAt = now,
        reason = (case r of None \<Rightarrow> ''rate_limit_exceeded'' | Some x \<Rightarrow> x),
        bannedBy = ''rateLimiter''\<rparr>)
   \<and> (banned s ip = Some old \<and> bannedAt old \<noteq> now \<longrightarrow>
        banned (banIp ip r now s) ip \<noteq> Some old
      \<and> bannedAt (the (banned (banIp ip r now s) ip)) = now)
   \<and> (\<not> fs_fail s (fs_ops s) \<longrightarrow>
        bannedFile (banIp ip r now s) = Some (JsonText (banned (banIp ip r now s))))"
proof -
  let ?rec = "\<lparr>bannedAt = now,
        reason = (case r of None \<Rightarrow> ''rate_limit_exceeded'' | Some x \<Rightarrow> x),
        bannedBy = ''rateLimiter''\<rparr>"
  have A: "banned (banIp ip r now s) = (banned s)(ip \<mapsto> ?rec)"
    by (rule banIp_banned)
  have B: "banned (banIp ip r now s) ip \<noteq> Some old
      \<and> bannedAt (the (banned (banIp ip r now s) ip)) = now"
    if "banned s ip = Some old" "bannedAt old \<noteq> now"
  proof -
    have "?rec \<noteq> old" using that(2) by auto
    then show ?thesis by (simp add: A)
  qed
  show ?thesis using A B banIp_file by blast
qed

theorem banIp_overwrites_record_witness:
  "banned (banIp ''A'' None 900 after_ban) ''A''
     = Some \<lparr>bannedAt = 900, reason = ''rate_limit_exceeded'', bannedBy = ''rateLimiter''\<rparr>
   \<and> banned (banIp ''A'' None 900 after_ban) ''A'' \<noteq> banned after_ban ''A''
   \<and> bannedFile (banIp ''A'' None 900 after_ban)
     = Some (JsonText [''A'' \<mapsto> \<lparr>bannedAt = 900, reason = ''rate_limit_exceeded'',
                                    bannedBy = ''rateLimiter''\<rparr>])"
proof -
  let ?old = "\<lparr>bannedAt = 300, reason = ''exceeded_3_per_1000ms'', bannedBy = ''rateLimiter''\<rparr>"
  have o: "banned after_ban ''A'' = Some ?old" by (simp add: after_ban_banned)
  have d: "bannedAt ?old \<noteq> 900" by simp
  have f: "\<not> fs_fail after_ban (fs_ops after_ban)" by (simp add: after_ban_fs)
  show ?thesis
    using banIp_overwrites_record [of "''A''" None 900 after_ban ?old] o d f
    by (simp add: after_ban_banned)
qed

theorem banIp_first_ban_wins_counterexample:
  "banned after_ban ''A'' =
     Some \<lparr>bannedAt = 300, reason = ''exceeded_3_per_1000ms'', bannedBy = ''rateLimiter''\<rparr>
   \<and> banned (banIp ''A'' (Some ''manual'') 900 after_ban) ''A'' =
     Some \<lparr>bannedAt = 900, reason = ''manual'', bannedBy = ''rateLimiter''\<rparr>"
  by (simp add: banIp_banned after_ban_banned)

subsection \<open>C3: the window after an unban\<close>

text \<open>
  C3 (as the code has it). A successful \<open>unbanIp\<close> removes the ban record and leaves the
  address's stored instants as they were. The next request from the address is counted
  over the stored instants that are still within \<open>windowMs\<close>, plus itself: its count is 1
  when every stored instant is older than \<open>windowMs\<close>, and otherwise the instants recorded
  before the ban are counted again. (An address that names a member of
  \<open>Object.prototype\<close> is answered 403 after the unban as before it, and nothing is
  counted.)
\<close>

theorem unban_keeps_tracker:
  assumes "banned s ip \<noteq> None" and "client_ip req = ip" and "0 \<le> windowMs"
  shows "fst (unbanIp ip now s) = True
       \<and> banned (snd (unbanIp ip now s)) ip = None
       \<and> ipTimestamps (snd (unbanIp ip now s)) = ipTimestamps s
       \<and> (ip \<notin> set Object_prototype \<longrightarrow>
            tracked (snd (handler maxReq windowMs req tm (snd (unbanIp ip now s)))) ip
              = filter (\<lambda>t. t_now tm - t \<le> windowMs) (tracked s ip) @ [t_now tm]
          \<and> fst (handler maxReq windowMs req tm (snd (unbanIp ip now s)))
              = (if maxReq < 1 + int (length (filter (\<lambda>t. t_now tm - t \<le> windowMs) (tracked s ip)))
                 then TooMany429 else Next)
          \<and> ((\<forall>t\<in>set (tracked s ip). windowMs < t_now tm - t) \<longrightarrow>
               tracked (snd (handler maxReq windowMs req tm (snd (unbanIp ip now s)))) ip
                 = [t_now tm]))
       \<and> (ip \<in> set Object_prototype \<longrightarrow>
            fst (handler maxReq windowMs req tm (snd (unbanIp ip now s))) = Forbidden403_undefined
          \<and> ipTimestamps (snd (handler maxReq windowMs req tm (snd (unbanIp ip now s))))
              = ipTimestamps s)"
proof -
  let ?s1 = "snd (unbanIp ip now s)"
  have u: "fst (unbanIp ip now s) = True" "banned ?s1 = (banned s)(ip := None)"
    "ipTimestamps ?s1 = ipTimestamps s"
    using unbanIp_banned [OF assms(1)] by simp_all
  have own: "banned ?s1 (client_ip req) = None" using u(2) assms(2) by simp
  have tr: "tracked ?s1 ip = tracked s ip" using u(3) by (simp add: tracked_def)
  have ordinary: "tracked (snd (handler maxReq windowMs req tm ?s1)) ip
         = filter (\<lambda>t. t_now tm - t \<le> windowMs) (tracked s ip) @ [t_now tm]
       \<and> fst (handler maxReq windowMs req tm ?s1)
         = (if maxReq < 1 + int (length (filter (\<lambda>t. t_now tm - t \<le> windowMs) (tracked s ip)))
            then TooMany429 else Next)
       \<and> ((\<forall>t\<in>set (tracked s ip). windowMs < t_now tm - t) \<longrightarrow>
            tracked (snd (handler maxReq windowMs req tm ?s1)) ip = [t_now tm])"
    if "ip \<notin> set Object_prototype"
  proof -
    have nb: "banned_get ?s1 (client_ip req) = None"
      using own that assms(2) by (simp add: banned_get_None)
    have A: "tracked (snd (handler maxReq windowMs req tm ?s1)) ip
         = filter (\<lambda>t. t_now tm - t \<le> windowMs) (tracked s ip) @ [t_now tm]"
      using handler_tracked [OF nb assms(3)] assms(2) tr by simp
    have B: "fst (handler maxReq windowMs req tm ?s1)
         = (if maxReq < 1 + int (length (filter (\<lambda>t. t_now tm - t \<le> windowMs) (tracked s ip)))
            then TooMany429 else Next)"
      using handler_decision [OF nb assms(3)] assms(2) tr by simp
    have C: "filter (\<lambda>t. t_now tm - t \<le> windowMs) (tracked s ip) = []"
      if "\<forall>t\<in>set (tracked s ip). windowMs < t_now tm - t"
      using that by (auto simp: filter_empty_conv)
    show ?thesis using A B C by auto
  qed
  have inherited: "fst (handler maxReq windowMs req tm ?s1) = Forbidden403_undefined
       \<and> ipTimestamps (snd (handler maxReq windowMs req tm ?s1)) = ipTimestamps s"
    if "ip \<in> set Object_prototype"
    using handler_inherited [OF own] that assms(2) u(3) by simp
  show ?thesis using u own ordinary inherited assms(2) by auto
qed

theorem unban_keeps_tracker_witness:
  "fst (unbanIp ''A'' 400 after_ban) = True
   \<and> fst (handler 3 1000 (req_from ''A'') (at 5000) (snd (unbanIp ''A'' 400 after_ban))) = Next
   \<and> tracked (snd (handler 3 1000 (req_from ''A'') (at 5000) (snd (unbanIp ''A'' 400 after_ban))))
        ''A'' = [5000]"
proof -
  have h1: "banned after_ban ''A'' \<noteq> None" by (simp add: after_ban_banned)
  have h3: "(0::int) \<le> 1000" by simp
  have old: "\<forall>t\<in>set (tracked after_ban ''A''). 1000 < t_now (at 5000) - t"
    by (simp add: after_ban_tracked at_def)
  show ?thesis
    using unban_keeps_tracker [OF h1 client_ip_req_from h3, of 400 3 "at 5000"] old
      A_not_inherited
    by (simp add: after_ban_tracked at_def)
qed

theorem unban_fresh_window_counterexample:
  "fst (unbanIp ''A'' 400 after_ban) = True
   \<and> fst (handler 3 1000 (req_from ''A'') (at 500) (snd (unbanIp ''A'' 400 after_ban)))
       = TooMany429
   \<and> ipTimestamps (snd (handler 3 1000 (req_from ''A'') (at 500) (snd (unbanIp ''A'' 400 after_ban))))
        ''A'' = Some [0, 100, 200, 300, 500]"
  by (simp add: unbanIp_def Let_def after_ban_banned handler_def client_ip_req_from
      recent_of_def after_ban_tracker at_def banned_get_def A_not_inherited)

subsection \<open>C4: a ban does not expire\<close>

text \<open>
  C4. Once an address has a ban record, every later request from it is answered with
  status 403 carrying that record's \<open>bannedAt\<close> and \<open>reason\<close>, whatever requests (from any
  address) and cleanup runs happened in between and whatever the clock shows. That answer
  does not depend on the window tracker and leaves it as it was.
\<close>

theorem banned_address_always_blocked:
  assumes "banned s ip = Some info" and "client_ip req = ip"
  shows "fst (handler maxReq windowMs req tm (steps maxReq windowMs evs s))
           = Forbidden403 (bannedAt info) (reason info)
       \<and> ipTimestamps (snd (handler maxReq windowMs req tm (steps maxReq windowMs evs s)))
           = ipTimestamps (steps maxReq windowMs evs s)
       \<and> banned (snd (handler maxReq windowMs req tm (steps maxReq windowMs evs s)))
           = banned (steps maxReq windowMs evs s)
       \<and> handler maxReq windowMs req tm ((steps maxReq windowMs evs s)\<lparr>ipTimestamps := m\<rparr>)
           = (Forbidden403 (bannedAt info) (reason info),
              (snd (handler maxReq windowMs req tm (steps maxReq windowMs evs s)))\<lparr>ipTimestamps := m\<rparr>)"
proof -
  let ?s = "steps maxReq windowMs evs s"
  have b: "banned ?s (client_ip req) = Some info"
    using assms by (simp add: steps_keep_ban)
  then have b': "banned (?s\<lparr>ipTimestamps := m\<rparr>) (client_ip req) = Some info"
    by simp
  show ?thesis
    by (simp add: handler_banned [OF b] handler_banned [OF b'] appendLog_tracker_update)
qed

theorem banned_address_always_blocked_witness:
  "fst (handler 3 1000 (req_from ''A'') (at 99999999)
         (steps 3 1000 [Incoming (req_from ''B'') (at 5000), Cleanup 60000,
                        Incoming (req_from ''A'') (at 70000)] after_ban))
     = Forbidden403 300 ''exceeded_3_per_1000ms''"
  using banned_address_always_blocked
    [of after_ban "''A''"
        "\<lparr>bannedAt = 300, reason = ''exceeded_3_per_1000ms'', bannedBy = ''rateLimiter''\<rparr>"
        "req_from ''A''" 3 1000 "at 99999999"
        "[Incoming (req_from ''B'') (at 5000), Cleanup 60000, Incoming (req_from ''A'') (at 70000)]"]
  by (simp add: after_ban_banned client_ip_req_from)

subsection \<open>C5: what the count counts\<close>

text \<open>
  C5. The count of a request is to be taken for every address; after \<open>maxRequests\<close>
  requests and a gap longer than \<open>windowMs\<close> the next request is to be passed on with a
  count of 1. The code does not record a request from an address that names a member of
  \<open>Object.prototype\<close>: on a process just started, a request from \<open>constructor\<close> at
  instant 7 is answered with status 403 without \<open>bannedAt\<close> or \<open>reason\<close>, its instant is
  not stored, and the log gets a \<open>BLOCKED_REQ\<close> line instead of a \<open>REQ\<close> line with a
  count.
\<close>

theorem inherited_name_not_recorded:
  "fst (handler 3 1000 (req_from ''constructor'') (at 7) init) = Forbidden403_undefined
   \<and> ipTimestamps (snd (handler 3 1000 (req_from ''constructor'') (at 7) init)) ''constructor''
       = None
   \<and> requestLog (snd (handler 3 1000 (req_from ''constructor'') (at 7) init))
       = [BLOCKED_REQ 7 ''constructor'' ''/'' ''GET'']"
proof -
  have own: "banned init (client_ip (req_from ''constructor'')) = None"
    by (simp add: init_def)
  have inh: "client_ip (req_from ''constructor'') \<in> set Object_prototype"
    by (simp add: client_ip_req_from_constructor constructor_inherited)
  have l: "requestLog (appendLog (BLOCKED_REQ 7 ''constructor'' ''/'' ''GET'') init)
      = [BLOCKED_REQ 7 ''constructor'' ''/'' ''GET'']"
    by (simp add: appendLog_log init_def)
  have t: "ipTimestamps init ''constructor'' = None" by (simp add: init_def)
  show ?thesis
    using handler_inherited [OF own inh, of 3 1000 "at 7"] l t
    by (simp add: client_ip_req_from_constructor req_from_fields at_def)
qed

text \<open>
  For an address that names no such member and is not banned, the requests kept for it
  after a call are the stored instants \<open>t\<close> with \<open>now - t \<le> windowMs\<close> followed by \<open>now\<close>
  itself; their number is the count written to the log and compared with \<open>maxRequests\<close>.
  In particular, after \<open>maxRequests\<close> requests within one window, a request that arrives
  more than \<open>windowMs\<close> after each of them is passed on with a count of 1.
\<close>

lemma window_count_excludes_expired:
  assumes "0 \<le> windowMs" and "banned s ip = None" and "client_ip req = ip"
    and "ip \<notin> set Object_prototype"
  shows "tracked (snd (handler maxReq windowMs req tm s)) ip
           = filter (\<lambda>t. t_now tm - t \<le> windowMs) (tracked s ip) @ [t_now tm]
       \<and> fst (handler maxReq windowMs req tm s)
           = (if maxReq < 1 + int (length (filter (\<lambda>t. t_now tm - t \<le> windowMs) (tracked s ip)))
              then TooMany429 else Next)
       \<and> (\<not> fs_fail s (fs_ops s) \<longrightarrow>
            take (Suc (length (requestLog s))) (requestLog (snd (handler maxReq windowMs req tm s)))
              = requestLog s @ [REQ (t_log tm) ip (req_method req) (req_path req)
                  (Suc (length (filter (\<lambda>t. t_now tm - t \<le> windowMs) (tracked s ip))))])
       \<and> (tracked s ip = [] \<and> int (length pre) = maxReq \<and> 1 \<le> maxReq
            \<and> (\<forall>e\<in>set pre. client_ip (fst e) = ip)
            \<and> sorted_wrt (\<lambda>t t'. t' - t \<le> windowMs) (map (\<lambda>e. t_now (snd e)) pre)
            \<and> (\<forall>e\<in>set pre. windowMs < t_now tm - t_now (snd e)) \<longrightarrow>
            fst (run (handler maxReq windowMs) (pre @ [(req, tm)]) s)
              = replicate (length pre) Next @ [Next]
          \<and> tracked (snd (run (handler maxReq windowMs) (pre @ [(req, tm)]) s)) ip = [t_now tm])"
proof -
  let ?mw = "handler maxReq windowMs"
  have nb: "banned_get s (client_ip req) = None" using assms by (simp add: banned_get_None)
  have A: "tracked (snd (?mw req tm s)) ip
         = filter (\<lambda>t. t_now tm - t \<le> windowMs) (tracked s ip) @ [t_now tm]"
    using handler_tracked [OF nb assms(1)] assms(3) by simp
  have B: "fst (?mw req tm s)
         = (if maxReq < 1 + int (length (filter (\<lambda>t. t_now tm - t \<le> windowMs) (tracked s ip)))
            then TooMany429 else Next)"
    using handler_decision [OF nb assms(1)] assms(3) by simp
  have C: "\<not> fs_fail s (fs_ops s) \<Longrightarrow>
      take (Suc (length (requestLog s))) (requestLog (snd (?mw req tm s)))
        = requestLog s @ [REQ (t_log tm) ip (req_method req) (req_path req)
            (Suc (length (filter (\<lambda>t. t_now tm - t \<le> windowMs) (tracked s ip))))]"
    using handler_log [OF nb assms(1)] assms(3) by simp
  have D: "fst (run ?mw (pre @ [(req, tm)]) s) = replicate (length pre) Next @ [Next]
         \<and> tracked (snd (run ?mw (pre @ [(req, tm)]) s)) ip = [t_now tm]"
    if h: "tracked s ip = []" "int (length pre) = maxReq" "1 \<le> maxReq"
      "\<forall>e\<in>set pre. client_ip (fst e) = ip"
      "sorted_wrt (\<lambda>t t'. t' - t \<le> windowMs) (map (\<lambda>e. t_now (snd e)) pre)"
      "\<forall>e\<in>set pre. windowMs < t_now tm - t_now (snd e)"
  proof -
    let ?s1 = "snd (run ?mw pre s)"
    have pre: "fst (run ?mw pre s) = replicate (length pre) Next
         \<and> banned ?s1 = banned s
         \<and> tracked ?s1 ip = tracked s ip @ map (\<lambda>e. t_now (snd e)) pre"
      apply (rule run_within_window)
      using h assms by simp_all
    have nb1: "banned_get ?s1 (client_ip req) = None"
      using pre assms by (simp add: banned_get_None)
    have gone: "filter (\<lambda>t. t_now tm - t \<le> windowMs) (tracked ?s1 ip) = []"
      using pre h(1,6) by (auto simp: filter_empty_conv)
    have r: "fst (?mw req tm ?s1) = Next"
      using handler_decision [OF nb1 assms(1)] assms(3) gone h(3) by simp
    have t: "tracked (snd (?mw req tm ?s1)) ip = [t_now tm]"
      using handler_tracked [OF nb1 assms(1)] assms(3) gone by simp
    show ?thesis using pre r t by (simp add: run_append run_Cons del: run.simps(2))
  qed
  show ?thesis using A B C D by blast
qed

lemma window_count_excludes_expired_example:
  "fst (run (handler 3 1000)
         [(req_from ''A'', at 0), (req_from ''A'', at 100), (req_from ''A'', at 200),
          (req_from ''A'', at 1201)] init) = [Next, Next, Next, Next]
   \<and> tracked (snd (run (handler 3 1000)
         [(req_from ''A'', at 0), (req_from ''A'', at 100), (req_from ''A'', at 200),
          (req_from ''A'', at 1201)] init)) ''A'' = [1201]
   \<and> requestLog (snd (handler 3 1000 (req_from ''A'') (at 1201) init))
       = [REQ 1201 ''A'' ''GET'' ''/'' 1]"
proof -
  let ?pre = "[(req_from ''A'', at 0), (req_from ''A'', at 100), (req_from ''A'', at 200)]"
  have h1: "(0::int) \<le> 1000" by simp
  have h2: "banned init ''A'' = None" by (simp add: init_def)
  have h3: "client_ip (req_from ''A'') = ''A''" by (rule client_ip_req_from)
  have f: "\<not> fs_fail init (fs_ops init)" by (simp add: init_def)
  have l: "requestLog init = []" by (simp add: init_def)
  have p: "tracked init ''A'' = [] \<and> int (length ?pre) = 3 \<and> (1::int) \<le> 3
      \<and> (\<forall>e\<in>set ?pre. client_ip (fst e) = ''A'')
      \<and> sorted_wrt (\<lambda>t t'. t' - t \<le> 1000) (map (\<lambda>e. t_now (snd e)) ?pre)
      \<and> (\<forall>e\<in>set ?pre. 1000 < t_now (at 1201) - t_now (snd e))"
    by (simp add: tracked_def init_def h3 at_def)
  have len: "length (requestLog (snd (handler 3 1000 (req_from ''A'') (at 1201) init))) = 1"
    by (simp add: handler_def Let_def init_def h3 recent_of_def at_def appendLog_log
        banned_get_def A_not_inherited)
  show ?thesis
    using window_count_excludes_expired [OF h1 h2 h3 A_not_inherited, of 3 "at 1201" ?pre] f l p len
    by (simp add: at_def req_from_def del: run.simps)
qed

subsection \<open>C6: the admin handler\<close>

text \<open>
  C6. An authorized unban of an address that is not banned is to be answered "not found".
  The code answers "unbanned" when the address names a member of \<open>Object.prototype\<close>:
  on a process just started, where no address is banned, an authorized request to unban
  \<open>toString\<close> gets status 200, the ban file is written again and the log gets an
  \<open>UNBAN\<close> line.
\<close>

theorem admin_unban_of_inherited_name:
  "banned init ''toString'' = None
   \<and> fst (adminUnbanHandler (Some ''secret'') (admin_req (Some ''secret'') (Some ''toString''))
            400 init) = Inr (Unbanned200 ''toString'')
   \<and> requestLog (snd (adminUnbanHandler (Some ''secret'')
            (admin_req (Some ''secret'') (Some ''toString'')) 400 init))
       = [UNBAN 400 ''toString'']
   \<and> fs_ops (snd (adminUnbanHandler (Some ''secret'')
            (admin_req (Some ''secret'') (Some ''toString'')) 400 init)) = 2"
proof -
  have own: "banned init ''toString'' = None" by (simp add: init_def)
  have u: "unbanIp ''toString'' 400 init
      = (True, appendLog (UNBAN 400 ''toString'') (saveBanned init))"
    using unbanIp_inherited [OF own toString_inherited] by simp
  have f: "\<not> fs_fail init n" "fs_ops init = 0" "requestLog init = []" for n
    by (simp_all add: init_def)
  have h: "adminUnbanHandler (Some ''secret'') (admin_req (Some ''secret'') (Some ''toString''))
             400 init
      = (Inr (Unbanned200 ''toString''), appendLog (UNBAN 400 ''toString'') (saveBanned init))"
    by (simp add: adminUnbanHandler_def provided_def admin_req_def or_str_def truthy_def u
        Let_def)
  show ?thesis
    by (simp add: h own appendLog_log f)
qed

theorem admin_unban_of_inherited_name_witness:
  "fst (adminUnbanHandler (Some ''secret'') (admin_req (Some ''secret'') (Some ''toString''))
         400 init) \<noteq> Inr (NotFound404 ''toString'')"
  using admin_unban_of_inherited_name by simp

text \<open>
  The other outcomes are as described. Without a configured \<open>ADMIN_KEY\<close> the admin
  handler answers 500 (never 401), whatever key the request carries. With one configured,
  a request that carries no key or a different key gets 401. An authorized request that
  names an address in its body gets 200 when the address had a ban record, which is then
  gone, and 404 when it had none and names no member of \<open>Object.prototype\<close>. The first
  two outcomes and the 404 leave the state as it was.
\<close>

lemma adminUnban_outcomes:
  "(\<not> truthy admin_key \<longrightarrow>
      adminUnbanHandler admin_key req now s = (Inr Misconfigured500, s))
   \<and> (truthy admin_key \<and> (\<not> truthy (provided req) \<or> provided req \<noteq> admin_key) \<longrightarrow>
      adminUnbanHandler admin_key req now s = (Inr Unauthorized401, s))
   \<and> (truthy admin_key \<and> provided req = admin_key
        \<and> req_body req = Some b \<and> body_ip b = Some ip \<and> ip \<noteq> [] \<longrightarrow>
        (banned s ip \<noteq> None \<longrightarrow>
           fst (adminUnbanHandler admin_key req now s) = Inr (Unbanned200 ip)
         \<and> banned (snd (adminUnbanHandler admin_key req now s)) = (banned s)(ip := None))
      \<and> (banned s ip = None \<and> ip \<notin> set Object_prototype \<longrightarrow>
           adminUnbanHandler admin_key req now s = (Inr (NotFound404 ip), s))
      \<and> (banned s ip = None \<and> ip \<in> set Object_prototype \<longrightarrow>
           adminUnbanHandler admin_key req now s
             = (Inr (Unbanned200 ip), appendLog (UNBAN now ip) (saveBanned s))))"
proof -
  have A: "adminUnbanHandler admin_key req now s = (Inr Misconfigured500, s)"
    if "\<not> truthy admin_key"
    using that by (simp add: adminUnbanHandler_def or_str_def truthy_def)
  have B: "adminUnbanHandler admin_key req now s = (Inr Unauthorized401, s)"
    if "truthy admin_key" "\<not> truthy (provided req) \<or> provided req \<noteq> admin_key"
    using that by (auto simp: adminUnbanHandler_def or_str_def)
  have C: "fst (adminUnbanHandler admin_key req now s) = Inr (Unbanned200 ip)
         \<and> banned (snd (adminUnbanHandler admin_key req now s)) = (banned s)(ip := None)"
    if "truthy admin_key" "provided req = admin_key" "req_body req = Some b"
      "body_ip b = Some ip" "ip \<noteq> []" "banned s ip \<noteq> None"
    using that unbanIp_banned [OF that(6), of now]
    by (auto simp: adminUnbanHandler_def or_str_def truthy_def split: prod.splits)
  have D: "adminUnbanHandler admin_key req now s = (Inr (NotFound404 ip), s)"
    if "truthy admin_key" "provided req = admin_key" "req_body req = Some b"
      "body_ip b = Some ip" "ip \<noteq> []" "banned s ip = None" "ip \<notin> set Object_prototype"
  proof -
    have "unbanIp ip now s = (False, s)"
      using that(6,7) by (simp add: unbanIp_absent banned_get_None)
    then show ?thesis
      using that by (auto simp: adminUnbanHandler_def or_str_def truthy_def)
  qed
  have E: "adminUnbanHandler admin_key req now s
             = (Inr (Unbanned200 ip), appendLog (UNBAN now ip) (saveBanned s))"
    if "truthy admin_key" "provided req = admin_key" "req_body req = Some b"
      "body_ip b = Some ip" "ip \<noteq> []" "banned s ip = None" "ip \<in> set Object_prototype"
  proof -
    have "unbanIp ip now s = (True, appendLog (UNBAN now ip) (saveBanned s))"
      using that(6,7) by (rule unbanIp_inherited)
    then show ?thesis
      using that by (auto simp: adminUnbanHandler_def or_str_def truthy_def)
  qed
  show ?thesis using A B C D E by blast
qed

lemma adminUnban_outcomes_example:
  "adminUnbanHandler None (admin_req (Some ''secret'') (Some ''A'')) 400 after_ban
     = (Inr Misconfigured500, after_ban)
   \<and> adminUnbanHandler (Some ''secret'') (admin_req (Some ''guess'') (Some ''A'')) 400 after_ban
     = (Inr Unauthorized401, after_ban)
   \<and> adminUnbanHandler (Some ''secret'') (admin_req None (Some ''A'')) 400 after_ban
     = (Inr Unauthorized401, after_ban)
   \<and> fst (adminUnbanHandler (Some ''secret'') (admin_req (Some ''secret'') (Some ''A'')) 400 after_ban)
     = Inr (Unbanned200 ''A'')
   \<and> adminUnbanHandler (Some ''secret'') (admin_req (Some ''secret'') (Some ''B'')) 400 after_ban
     = (Inr (NotFound404 ''B''), after_ban)"
proof -
  have p: "provided (admin_req (Some ''secret'') i) = Some ''secret''"
    "provided (admin_req (Some ''guess'') i) = Some ''guess''"
    "provided (admin_req None i) = None" for i
    by (simp_all add: provided_def admin_req_def or_str_def truthy_def)
  have b: "req_body (admin_req k (Some i)) = Some \<lparr>body_adminKey = None, body_ip = Some i\<rparr>"
    for k i
    by (simp add: admin_req_def)
  have a: "banned after_ban ''A'' \<noteq> None" "banned after_ban ''B'' = None"
    "''B'' \<notin> set Object_prototype"
    by (simp_all add: after_ban_banned Object_prototype_def)
  show ?thesis
    using adminUnban_outcomes [of None "admin_req (Some ''secret'') (Some ''A'')" 400 after_ban]
      adminUnban_outcomes [of "Some ''secret''" "admin_req (Some ''guess'') (Some ''A'')" 400 after_ban]
      adminUnban_outcomes [of "Some ''secret''" "admin_req None (Some ''A'')" 400 after_ban]
      adminUnban_outcomes [of "Some ''secret''" "admin_req (Some ''secret'') (Some ''A'')" 400 after_ban
        "\<lparr>body_adminKey = None, body_ip = Some ''A''\<rparr>" "''A''"]
      adminUnban_outcomes [of "Some ''secret''" "admin_req (Some ''secret'') (Some ''B'')" 400 after_ban
        "\<lparr>body_adminKey = None, body_ip = Some ''B''\<rparr>" "''B''"]
      a
    by (simp add: p b truthy_def)
qed

subsection \<open>C7: unbanning\<close>

text \<open>
  C7. \<open>unbanIp\<close> on an address without a ban record is to return \<open>false\<close> and to write
  nothing. The code returns \<open>true\<close> when the address names a member of
  \<open>Object.prototype\<close>: on a process just started, where no address has a record,
  \<open>unbanIp\<close> of \<open>toString\<close> returns \<open>true\<close>, writes the (empty) ban map to the ban file
  and appends an \<open>UNBAN\<close> line to the log.
\<close>

theorem unbanIp_of_inherited_name:
  "banned init ''toString'' = None
   \<and> fst (unbanIp ''toString'' 400 init) = True
   \<and> banned (snd (unbanIp ''toString'' 400 init)) = Map.empty
   \<and> bannedFile (snd (unbanIp ''toString'' 400 init)) = Some (JsonText Map.empty)
   \<and> requestLog (snd (unbanIp ''toString'' 400 init)) = [UNBAN 400 ''toString'']
   \<and> fs_ops (snd (unbanIp ''toString'' 400 init)) = 2"
proof -
  have own: "banned init ''toString'' = None" by (simp add: init_def)
  have u: "unbanIp ''toString'' 400 init
      = (True, appendLog (UNBAN 400 ''toString'') (saveBanned init))"
    using unbanIp_inherited [OF own toString_inherited] by simp
  have f: "\<not> fs_fail init n" "fs_ops init = 0" "requestLog init = []"
    "banned init = Map.empty" for n
    by (simp_all add: init_def)
  show ?thesis
    by (simp add: u own appendLog_log saveBanned_file f)
qed

text \<open>
  For every other address \<open>unbanIp\<close> is as described. When \<open>banned[ip]\<close> finds nothing
  it returns \<open>false\<close> and leaves the whole state as it was, so nothing is written. On an
  address with a record it returns \<open>true\<close>, removes that record and no other, and writes
  the remaining map to the ban file (the file holds it when the write does not fail).
\<close>

lemma unbanIp_outcomes:
  "(banned s ip = None \<and> ip \<notin> set Object_prototype \<longrightarrow> unbanIp ip now s = (False, s))
   \<and> (banned s ip = None \<and> ip \<in> set Object_prototype \<longrightarrow>
        unbanIp ip now s = (True, appendLog (UNBAN now ip) (saveBanned s)))
   \<and> (banned s ip \<noteq> None \<longrightarrow>
        fst (unbanIp ip now s) = True
      \<and> banned (snd (unbanIp ip now s)) = (banned s)(ip := None)
      \<and> fs_ops (snd (unbanIp ip now s)) = Suc (Suc (fs_ops s))
      \<and> (\<not> fs_fail s (fs_ops s) \<longrightarrow>
           bannedFile (snd (unbanIp ip now s)) = Some (JsonText ((banned s)(ip := None)))))"
  by (auto simp: unbanIp_def Let_def saveBanned_file banned_get_def fun_upd_idem)

lemma unbanIp_outcomes_example:
  "unbanIp ''B'' 400 after_ban = (False, after_ban)
   \<and> fst (unbanIp ''A'' 400 after_ban) = True
   \<and> banned (snd (unbanIp ''A'' 400 after_ban)) = Map.empty
   \<and> bannedFile (snd (unbanIp ''A'' 400 after_ban)) = Some (JsonText Map.empty)"
proof -
  have b: "banned after_ban ''B'' = None" "''B'' \<notin> set Object_prototype"
    by (simp_all add: after_ban_banned Object_prototype_def)
  have a: "banned after_ban ''A'' \<noteq> None" by (simp add: after_ban_banned)
  have f: "\<not> fs_fail after_ban (fs_ops after_ban)" by (simp add: after_ban_fs)
  have e: "(banned after_ban)(''A'' := None) = Map.empty" by (simp add: after_ban_banned)
  show ?thesis
    using unbanIp_outcomes [of after_ban "''B''" 400] unbanIp_outcomes [of after_ban "''A''" 400]
      a b f e by simp
qed

subsection \<open>C8: failures of the file system\<close>

text \<open>
  C8 (as the code has it). A write of the ban map that throws and an append to the
  request log that throws are caught: each leaves a line on the console and the ban map
  in memory as it was. Whatever the file system does, a request that crosses the
  threshold is answered with 429 and the address is banned in memory, so that every later
  request from it is answered with 403; when every file-system call throws, the ban file
  is not changed and the console has the three reports. The middleware has no error
  result. \<open>loadBanned\<close> turns every failure to read or parse the ban file
  into the empty ban map and a line on the console. When the module is loaded, a ban file
  that exists and cannot be read or parsed gives the empty map and that line; a ban file
  that is missing is first created by \<open>ensureFiles\<close>, holding the empty map, and is
  then loaded without any line on the console.
\<close>

theorem durability_failures_not_fatal:
  "(fs_fail s (fs_ops s) \<longrightarrow>
      banned (saveBanned s) = banned s \<and> ipTimestamps (saveBanned s) = ipTimestamps s
    \<and> bannedFile (saveBanned s) = bannedFile s
    \<and> console (saveBanned s) = console s @ [Failed_save])
   \<and> (fs_fail s (fs_ops s) \<longrightarrow>
      banned (appendLog l s) = banned s \<and> ipTimestamps (appendLog l s) = ipTimestamps s
    \<and> requestLog (appendLog l s) = requestLog s
    \<and> console (appendLog l s) = console s @ [Failed_append])
   \<and> (banned s ip = None \<and> ip \<notin> set Object_prototype
        \<and> client_ip req = ip \<and> client_ip req' = ip \<and> 0 \<le> windowMs
        \<and> maxReq < 1 + int (length (filter (\<lambda>t. t_now tm - t \<le> windowMs) (tracked s ip))) \<longrightarrow>
      fst (handler maxReq windowMs req tm s) = TooMany429
    \<and> banned (snd (handler maxReq windowMs req tm s)) ip
        = Some \<lparr>bannedAt = t_ban tm, reason = ban_reason maxReq windowMs,
                bannedBy = ''rateLimiter''\<rparr>
    \<and> fst (handler maxReq windowMs req' tm'
             (steps maxReq windowMs evs (snd (handler maxReq windowMs req tm s))))
        = Forbidden403 (t_ban tm) (ban_reason maxReq windowMs)
    \<and> ((\<forall>n. fs_fail s n) \<longrightarrow>
          bannedFile (snd (handler maxReq windowMs req tm s)) = bannedFile s
        \<and> console (snd (handler maxReq windowMs req tm s))
            = console s @ [Failed_append, Failed_save, Failed_append]))
   \<and> (fs_fail s (fs_ops s) \<or> bannedFile s = None \<or> bannedFile s = Some Malformed \<longrightarrow>
      banned (loadBanned s) = Map.empty \<and> console (loadBanned s) = console s @ [Failed_load])
   \<and> (dataDir_exists s \<and> logDir_exists s \<and> requestLog_exists s
        \<and> (bannedFile s = Some Malformed \<or> bannedFile s \<noteq> None \<and> fs_fail s (fs_ops s)) \<longrightarrow>
      \<not> isl (startup s)
    \<and> banned (projr (startup s)) = Map.empty
    \<and> console (projr (startup s)) = console s @ [Failed_load])
   \<and> (bannedFile s = None \<and> (\<forall>n. \<not> fs_fail s n) \<longrightarrow>
      \<not> isl (startup s)
    \<and> banned (projr (startup s)) = Map.empty
    \<and> bannedFile (projr (startup s)) = Some (JsonText Map.empty)
    \<and> console (projr (startup s)) = console s)"
proof -
  have A: "banned (saveBanned s) = banned s \<and> ipTimestamps (saveBanned s) = ipTimestamps s
    \<and> bannedFile (saveBanned s) = bannedFile s
    \<and> console (saveBanned s) = console s @ [Failed_save]"
    if "fs_fail s (fs_ops s)"
    using that by (simp add: saveBanned_file saveBanned_console)
  have B: "banned (appendLog l s) = banned s \<and> ipTimestamps (appendLog l s) = ipTimestamps s
    \<and> requestLog (appendLog l s) = requestLog s
    \<and> console (appendLog l s) = console s @ [Failed_append]"
    if "fs_fail s (fs_ops s)"
    using that by (simp add: appendLog_log appendLog_console)
  have C: "fst (handler maxReq windowMs req tm s) = TooMany429
    \<and> banned (snd (handler maxReq windowMs req tm s)) ip
        = Some \<lparr>bannedAt = t_ban tm, reason = ban_reason maxReq windowMs,
                bannedBy = ''rateLimiter''\<rparr>
    \<and> fst (handler maxReq windowMs req' tm'
             (steps maxReq windowMs evs (snd (handler maxReq windowMs req tm s))))
        = Forbidden403 (t_ban tm) (ban_reason maxReq windowMs)
    \<and> ((\<forall>n. fs_fail s n) \<longrightarrow>
          bannedFile (snd (handler maxReq windowMs req tm s)) = bannedFile s
        \<and> console (snd (handler maxReq windowMs req tm s))
            = console s @ [Failed_append, Failed_save, Failed_append])"
    if h: "banned s ip = None" "client_ip req = ip" "client_ip req' = ip"
      "0 \<le> windowMs"
      "maxReq < 1 + int (length (filter (\<lambda>t. t_now tm - t \<le> windowMs) (tracked s ip)))"
      "ip \<notin> set Object_prototype"
  proof -
    let ?s1 = "snd (handler maxReq windowMs req tm s)"
    let ?rec = "\<lparr>bannedAt = t_ban tm, reason = ban_reason maxReq windowMs,
                  bannedBy = ''rateLimiter''\<rparr>"
    have nb: "banned_get s (client_ip req) = None" using h by (simp add: banned_get_None)
    have over: "maxReq < int (length (recent_of windowMs (t_now tm) (ipTimestamps s (client_ip req))))"
      using h by (simp add: recent_of_tracked)
    have r: "fst (handler maxReq windowMs req tm s) = TooMany429"
      using handler_resp [OF nb] over by simp
    have b: "banned ?s1 ip = Some ?rec"
      using handler_bans [OF nb] over h(2) by simp
    have d: "bannedFile ?s1 = bannedFile s
       \<and> console ?s1 = console s @ [Failed_append, Failed_save, Failed_append]"
      if "\<forall>n. fs_fail s n"
      using handler_over_failing_disk [OF that nb over] by simp
    have later: "banned (steps maxReq windowMs evs ?s1) (client_ip req') = Some ?rec"
      using steps_keep_ban [OF b] h(3) by simp
    show ?thesis using r b d by (simp add: handler_banned [OF later])
  qed
  have D: "\<not> isl (startup s) \<and> banned (projr (startup s)) = Map.empty
    \<and> console (projr (startup s)) = console s @ [Failed_load]"
    if "dataDir_exists s" "logDir_exists s" "requestLog_exists s"
      "bannedFile s = Some Malformed \<or> bannedFile s \<noteq> None \<and> fs_fail s (fs_ops s)"
  proof -
    have "bannedFile s \<noteq> None" using that(4) by auto
    then have "startup s = Inr (loadBanned s)"
      using that by (simp add: startup_def ensureFiles_all_present)
    moreover have "fs_fail s (fs_ops s) \<or> bannedFile s = None \<or> bannedFile s = Some Malformed"
      using that(4) by auto
    ultimately show ?thesis using loadBanned_unreadable by simp
  qed
  show ?thesis using A B C D loadBanned_unreadable startup_missing_file by blast
qed

theorem durability_failures_not_fatal_witness:
  "fst (handler 3 1000 (req_from ''A'') (at 300) failing_disk) = TooMany429
   \<and> banned (snd (handler 3 1000 (req_from ''A'') (at 300) failing_disk)) ''A''
       = Some \<lparr>bannedAt = 300, reason = ''exceeded_3_per_1000ms'', bannedBy = ''rateLimiter''\<rparr>
   \<and> bannedFile (snd (handler 3 1000 (req_from ''A'') (at 300) failing_disk))
       = Some (JsonText Map.empty)
   \<and> fst (handler 3 1000 (req_from ''A'') (at 99999)
            (steps 3 1000 [Cleanup 60000] (snd (handler 3 1000 (req_from ''A'') (at 300) failing_disk))))
       = Forbidden403 300 ''exceeded_3_per_1000ms''
   \<and> console (saveBanned failing_disk) = [Failed_save]
   \<and> console (appendLog (UNBAN 0 ''A'') failing_disk) = [Failed_append]
   \<and> banned (loadBanned corrupt_file) = Map.empty
   \<and> console (projr (startup corrupt_file)) = [Failed_load]
   \<and> banned (projr (startup first_run)) = Map.empty"
proof -
  have f: "\<forall>n. fs_fail failing_disk n" "fs_fail failing_disk (fs_ops failing_disk)"
    by (simp_all add: failing_disk_def init_def)
  have s: "banned failing_disk ''A'' = None" "tracked failing_disk ''A'' = [0, 100, 200]"
    "console failing_disk = []" "bannedFile failing_disk = Some (JsonText Map.empty)"
    by (simp_all add: failing_disk_def init_def tracked_def)
  have c: "bannedFile corrupt_file = Some Malformed" "console corrupt_file = []"
    "dataDir_exists corrupt_file" "logDir_exists corrupt_file" "requestLog_exists corrupt_file"
    by (simp_all add: corrupt_file_def init_def)
  have n: "bannedFile first_run = None" "\<forall>n. \<not> fs_fail first_run n"
    by (simp_all add: first_run_def init_def)
  show ?thesis
    using durability_failures_not_fatal [of failing_disk "UNBAN 0 ''A''" "''A''" "req_from ''A''"
        "req_from ''A''" 1000 3 "at 300" "at 99999" "[Cleanup 60000]"]
      durability_failures_not_fatal [of corrupt_file "UNBAN 0 ''A''" "''A''" "req_from ''A''"
        "req_from ''A''" 1000 3 "at 300" "at 99999" "[Cleanup 60000]"]
      durability_failures_not_fatal [of first_run "UNBAN 0 ''A''" "''A''" "req_from ''A''"
        "req_from ''A''" 1000 3 "at 300" "at 99999" "[Cleanup 60000]"]
      f s c n client_ip_req_from A_not_inherited
    by (simp add: at_def ban_reason_3_1000)
qed

theorem first_start_without_warning_counterexample:
  "\<not> isl (startup first_run)
   \<and> banned (projr (startup first_run)) = Map.empty
   \<and> console (projr (startup first_run)) = []
   \<and> requestLog (projr (startup first_run)) = []
   \<and> startup first_run_failing = Inl FsError"
  by (simp add: startup_def ensureFiles_def mkdirSync_data_def mkdirSync_logs_def
      writeFileSync_empty_banned_def writeFileSync_empty_log_def fs_call_def loadBanned_def
      readFileSync_banned_def JSON_parse_def first_run_def first_run_failing_def init_def)

subsection \<open>C9: the window of the cleanup\<close>

text \<open>
  C9. \<open>cleanup\<close> keeps, for every address, the stored instants \<open>t\<close> with
  \<open>now - t \<le> 10000\<close> and drops the entry when none is left; the options given to
  \<open>rateLimiterMiddleware\<close> play no part in it. With a configured \<open>windowMs\<close> above 10000,
  a stored instant that is older than 10000 ms at the cleanup but still within \<open>windowMs\<close>
  at the next request is lost: that request's count is lower than it is without the
  cleanup. Such a run exists for every \<open>windowMs\<close> above 10000.
\<close>

theorem cleanup_ignores_configured_window:
  "ipTimestamps (cleanup now s) ip =
     (case ipTimestamps s ip of
        None \<Rightarrow> None
      | Some arr \<Rightarrow>
          if filter (\<lambda>t. now - t \<le> 10000) arr = [] then None
          else Some (filter (\<lambda>t. now - t \<le> 10000) arr))
   \<and> (or_num (opt_windowMs opts) WINDOW_MS = windowMs \<and> 10000 < windowMs
        \<and> banned s ip = None \<and> ip \<notin> set Object_prototype \<and> client_ip req = ip
        \<and> t \<in> set (tracked s ip) \<and> 10000 < now - t \<and> t_now tm - t \<le> windowMs \<longrightarrow>
        length (tracked (snd (rateLimiterMiddleware opts req tm (cleanup now s))) ip)
          < length (tracked (snd (rateLimiterMiddleware opts req tm s)) ip))
   \<and> (or_num (opt_windowMs opts) WINDOW_MS = windowMs \<and> 10000 < windowMs \<longrightarrow>
        tracked (snd (rateLimiterMiddleware opts (req_from ''A'') (at windowMs)
                          (cleanup windowMs one_request))) ''A'' = [windowMs]
        \<and> tracked (snd (rateLimiterMiddleware opts (req_from ''A'') (at windowMs) one_request)) ''A''
            = [0, windowMs])"
proof -
  let ?M = "or_num (opt_maxRequests opts) MAX_REQUESTS"
  have A: "ipTimestamps (cleanup now s) ip =
     (case ipTimestamps s ip of
        None \<Rightarrow> None
      | Some arr \<Rightarrow>
          if filter (\<lambda>t. now - t \<le> 10000) arr = [] then None
          else Some (filter (\<lambda>t. now - t \<le> 10000) arr))"
    by (simp add: cleanup_def WINDOW_MS_def Let_def split: option.splits)
  have B: "length (tracked (snd (rateLimiterMiddleware opts req tm (cleanup now s))) ip)
          < length (tracked (snd (rateLimiterMiddleware opts req tm s)) ip)"
    if h: "or_num (opt_windowMs opts) WINDOW_MS = windowMs" "10000 < windowMs"
      "banned s ip = None" "client_ip req = ip"
      "t \<in> set (tracked s ip)" "10000 < now - t" "t_now tm - t \<le> windowMs"
      "ip \<notin> set Object_prototype"
  proof -
    have mw: "rateLimiterMiddleware opts = handler ?M windowMs"
      using h(1) by (simp add: middleware_handler)
    have w: "0 \<le> windowMs" using h(2) by simp
    have nb: "banned_get s (client_ip req) = None"
      "banned_get (cleanup now s) (client_ip req) = None"
      using h(3,4,8) by (simp_all add: banned_get_None)
    have "length (filter (\<lambda>t. t_now tm - t \<le> windowMs) (filter (\<lambda>t. now - t \<le> 10000) (tracked s ip)))
        < length (filter (\<lambda>t. t_now tm - t \<le> windowMs) (tracked s ip))"
      using filter_filter_less [OF h(5), of "\<lambda>t. t_now tm - t \<le> windowMs" "\<lambda>t. now - t \<le> 10000"]
        h(6,7) by simp
    then show ?thesis
      using handler_tracked [OF nb(1) w] handler_tracked [OF nb(2) w] h(4)
      by (simp add: mw cleanup_tracked)
  qed
  have C: "tracked (snd (rateLimiterMiddleware opts (req_from ''A'') (at windowMs)
                          (cleanup windowMs one_request))) ''A'' = [windowMs]
        \<and> tracked (snd (rateLimiterMiddleware opts (req_from ''A'') (at windowMs) one_request)) ''A''
            = [0, windowMs]"
    if h: "or_num (opt_windowMs opts) WINDOW_MS = windowMs" "10000 < windowMs"
  proof -
    have mw: "rateLimiterMiddleware opts = handler ?M windowMs"
      using h(1) by (simp add: middleware_handler)
    have w: "0 \<le> windowMs" using h(2) by simp
    have t: "tracked one_request ''A'' = [0]"
      by (simp add: tracked_def one_request_def)
    have nb: "banned_get one_request (client_ip (req_from ''A'')) = None"
      "banned_get (cleanup windowMs one_request) (client_ip (req_from ''A'')) = None"
      by (simp_all add: one_request_def init_def banned_get_None client_ip_req_from
          A_not_inherited)
    show ?thesis
      using handler_tracked [OF nb(1) w] handler_tracked [OF nb(2) w] h(2)
      by (simp add: mw cleanup_tracked t client_ip_req_from at_def)
  qed
  show ?thesis using A B C by blast
qed

theorem cleanup_ignores_configured_window_witness:
  "tracked (snd (rateLimiterMiddleware \<lparr>opt_maxRequests = None, opt_windowMs = Some 60000\<rparr>
                  (req_from ''A'') (at 60000) (cleanup 60000 one_request))) ''A'' = [60000]
   \<and> tracked (snd (rateLimiterMiddleware \<lparr>opt_maxRequests = None, opt_windowMs = Some 60000\<rparr>
                  (req_from ''A'') (at 60000) one_request)) ''A'' = [0, 60000]
   \<and> length (tracked (snd (rateLimiterMiddleware \<lparr>opt_maxRequests = None, opt_windowMs = Some 60000\<rparr>
                  (req_from ''A'') (at 30000) (cleanup 20000 one_request))) ''A'')
       < length (tracked (snd (rateLimiterMiddleware \<lparr>opt_maxRequests = None, opt_windowMs = Some 60000\<rparr>
                  (req_from ''A'') (at 30000) one_request)) ''A'')"
proof -
  let ?opts = "\<lparr>opt_maxRequests = None, opt_windowMs = Some 60000\<rparr>"
  have o: "or_num (opt_windowMs ?opts) WINDOW_MS = 60000" by (simp add: or_num_def)
  have b: "banned one_request ''A'' = None" by (simp add: one_request_def init_def)
  have t: "0 \<in> set (tracked one_request ''A'')" by (simp add: tracked_def one_request_def)
  have i: "t_now (at 30000) - 0 \<le> (60000::int)" "(10000::int) < 20000 - 0"
    by (simp_all add: at_def)
  show ?thesis
    using cleanup_ignores_configured_window [of 60000 one_request "''A''" ?opts 60000
        "req_from ''A''" 0 "at 60000"]
      cleanup_ignores_configured_window [of 20000 one_request "''A''" ?opts 60000
        "req_from ''A''" 0 "at 30000"]
      o b t i client_ip_req_from A_not_inherited
    by simp
qed

subsection \<open>C10: requests without an address\<close>

text \<open>
  C10. A request with no \<open>req.ip\<close>, no \<open>x-forwarded-for\<close> header and no remote address
  is handled under the address \<open>unknown\<close>. All such requests are counted in the one
  window stored under \<open>unknown\<close>: when \<open>maxRequests + 1\<close> of them arrive within one
  window, the last one is answered with 429, the single record added to the ban map is
  the one of \<open>unknown\<close>, and the next such request is answered with 403 from that record.
\<close>

theorem unidentified_requests_share_unknown:
  assumes "\<forall>e\<in>set (pre @ [lst, nxt]). no_identifier (fst e)"
    and "0 \<le> windowMs" and "int (length pre) = maxReq"
    and "banned s ''unknown'' = None" and "tracked s ''unknown'' = []"
    and "sorted_wrt (\<lambda>t t'. t' - t \<le> windowMs) (map (\<lambda>e. t_now (snd e)) (pre @ [lst]))"
  shows "(\<forall>e\<in>set (pre @ [lst, nxt]). client_ip (fst e) = ''unknown'')
       \<and> fst (run (handler maxReq windowMs) (pre @ [lst, nxt]) s)
           = replicate (length pre) Next
             @ [TooMany429, Forbidden403 (t_ban (snd lst)) (ban_reason maxReq windowMs)]
       \<and> tracked (snd (run (handler maxReq windowMs) pre s)) ''unknown''
           = map (\<lambda>e. t_now (snd e)) pre
       \<and> banned (snd (run (handler maxReq windowMs) (pre @ [lst, nxt]) s))
           = (banned s)(''unknown'' \<mapsto>
               \<lparr>bannedAt = t_ban (snd lst), reason = ban_reason maxReq windowMs,
                bannedBy = ''rateLimiter''\<rparr>)"
proof -
  let ?mw = "handler maxReq windowMs"
  let ?rec = "\<lparr>bannedAt = t_ban (snd lst), reason = ban_reason maxReq windowMs,
                bannedBy = ''rateLimiter''\<rparr>"
  let ?s2 = "snd (run ?mw (pre @ [lst]) s)"
  have ids: "\<forall>e\<in>set (pre @ [lst, nxt]). client_ip (fst e) = ''unknown''"
    using assms(1) by (simp add: client_ip_unknown)
  then have ids': "\<forall>e\<in>set (pre @ [lst]). client_ip (fst e) = ''unknown''" by simp
  note th = run_threshold [OF assms(2,3) ids' assms(4,5,6) unknown_not_inherited]
  have b2: "banned ?s2 (client_ip (fst nxt)) = Some ?rec"
    using th(4) ids by simp
  have split: "pre @ [lst, nxt] = (pre @ [lst]) @ [nxt]" by simp
  have r: "fst (run ?mw (pre @ [lst, nxt]) s)
         = replicate (length pre) Next @ [TooMany429, Forbidden403 (t_ban (snd lst)) (ban_reason maxReq windowMs)]"
    unfolding split
    using th(1) by (simp add: run_append [of ?mw "pre @ [lst]"] run_Cons handler_banned [OF b2]
        del: run.simps(2) append_assoc)
  have b: "banned (snd (run ?mw (pre @ [lst, nxt]) s)) = (banned s)(''unknown'' \<mapsto> ?rec)"
    unfolding split
    using th(4) by (simp add: run_append [of ?mw "pre @ [lst]"] run_Cons handler_banned [OF b2]
        del: run.simps(2) append_assoc)
  show ?thesis using ids r th(3) b by simp
qed

theorem unidentified_requests_share_unknown_witness:
  "fst (run (handler 2 1000)
         [(anonymous ''/a'', at 0), (anonymous ''/b'', at 10), (anonymous ''/c'', at 20),
          (anonymous ''/d'', at 99999)] init)
     = [Next, Next, TooMany429, Forbidden403 20 ''exceeded_2_per_1000ms'']
   \<and> banned (snd (run (handler 2 1000)
         [(anonymous ''/a'', at 0), (anonymous ''/b'', at 10), (anonymous ''/c'', at 20),
          (anonymous ''/d'', at 99999)] init))
     = [''unknown'' \<mapsto> \<lparr>bannedAt = 20, reason = ''exceeded_2_per_1000ms'',
                          bannedBy = ''rateLimiter''\<rparr>]"
proof -
  let ?pre = "[(anonymous ''/a'', at 0), (anonymous ''/b'', at 10)]"
  have n: "no_identifier (anonymous p)" for p
    by (simp add: no_identifier_def anonymous_def truthy_def)
  have h1: "\<forall>e\<in>set (?pre @ [(anonymous ''/c'', at 20), (anonymous ''/d'', at 99999)]).
              no_identifier (fst e)"
    by (simp add: n)
  have h2: "(0::int) \<le> 1000" by simp
  have h3: "int (length ?pre) = 2" by simp
  have h4: "banned init ''unknown'' = None" by (simp add: init_def)
  have h5: "tracked init ''unknown'' = []" by (simp add: tracked_def init_def)
  have h6: "sorted_wrt (\<lambda>t t'. t' - t \<le> 1000)
              (map (\<lambda>e. t_now (snd e)) (?pre @ [(anonymous ''/c'', at 20)]))"
    by (simp add: at_def)
  have r: "ban_reason 2 1000 = ''exceeded_2_per_1000ms''"
    by (simp add: ban_reason_def show_int_def show_nat.simps digit_def)
  have e: "banned init = Map.empty" by (simp add: init_def)
  show ?thesis
    using unidentified_requests_share_unknown [OF h1 h2 h3 h4 h5 h6]
    by (simp add: r e at_def del: run.simps)
qed

end
